theory Spec2Isabelle
  imports Complex_Main "HOL-Library.Word" "HOL-Library.Multiset"
begin

unbundle bit_operations_syntax

section \<open>The model\<close>

subsection \<open>Boundary geometry: splitting a ring at the date line\<close>

text \<open>
  The JavaScript of \<open>simulator.py\<close> works on objects with the fields \<open>lat\<close> and
  \<open>lon\<close>. JavaScript numbers are modelled as reals: the properties below are about
  comparisons and the order of the vertices, never about rounding.
\<close>

record coord =
  lat :: real
  lon :: real

text \<open>
  \<open>splitAtDateLine(coordinates)\<close>: the loop keeps the finished \<open>segments\<close> and the
  \<open>currentSegment\<close>; \<open>split_step\<close> is one iteration of its body.
\<close>

definition split_step :: "coord \<Rightarrow> coord list list \<times> coord list \<Rightarrow> coord list list \<times> coord list" where
  "split_step c st =
     (case st of (segments, currentSegment) \<Rightarrow>
        if length currentSegment = 0 then (segments, currentSegment @ [c])
        else
          let prevCoord = last currentSegment;
              lonDiff = \<bar>lon c - lon prevCoord\<bar>
          in if lonDiff > 180
             then ((if length currentSegment > 0 then segments @ [currentSegment] else segments), [c])
             else (segments, currentSegment @ [c]))"

definition splitAtDateLine :: "coord list \<Rightarrow> coord list list" where
  "splitAtDateLine coordinates =
     (case fold split_step coordinates ([], []) of (segments, currentSegment) \<Rightarrow>
        if length currentSegment > 0 then segments @ [currentSegment] else segments)"

text \<open>An edge of a path is smooth when it spans at most 180 degrees of longitude.\<close>

definition smooth_edge :: "coord \<Rightarrow> coord \<Rightarrow> bool" where
  "smooth_edge a b = (\<bar>lon b - lon a\<bar> \<le> 180)"

subsection \<open>Boundary geometry: point in polygon\<close>

text \<open>
  \<open>isPointInPolygon(lat, lon, polygon)\<close> of \<open>simulator.py\<close>. The loop runs \<open>i\<close> over
  \<open>0 .. n - 1\<close> with \<open>j\<close> the index before it (\<open>n - 1\<close> at the start); its state is the
  pair of \<open>j\<close> and \<open>inside\<close>. The division is only reached behind \<open>&&\<close>, where
  \<open>yi\<close> and \<open>yj\<close> differ.
\<close>

definition pip_step :: "real \<Rightarrow> real \<Rightarrow> coord list \<Rightarrow> nat \<Rightarrow> nat \<times> bool \<Rightarrow> nat \<times> bool" where
  "pip_step plat plon polygon i st =
     (case st of (j, inside) \<Rightarrow>
        let yi = lat (polygon ! i);
            xi = lon (polygon ! i);
            yj = lat (polygon ! j);
            xj = lon (polygon ! j)
        in (i, if ((yi > plat) \<noteq> (yj > plat)) \<and>
                  (plon < (xj - xi) * (plat - yi) / (yj - yi) + xi)
               then \<not> inside else inside))"

definition isPointInPolygon :: "real \<Rightarrow> real \<Rightarrow> coord list \<Rightarrow> bool" where
  "isPointInPolygon plat plon polygon =
     (let n = length polygon
      in snd (fold (pip_step plat plon polygon) [0..<n] (n - 1, False)))"

text \<open>
  \<open>point_in_polygon(point_lon, point_lat, polygon)\<close> of \<open>test_sync.py\<close>, on a list of
  \<open>(lon, lat)\<close> tuples. \<open>polygon[0]\<close> raises on the empty list, and \<open>xinters\<close> is a
  local that is only bound inside \<open>if p1y != p2y\<close>: reading it unbound raises, so the
  loop state carries it as an option.
\<close>

datatype py_error = IndexError | UnboundLocalError

type_synonym pip_state = "(real \<times> real) \<times> real option \<times> bool"

definition point_in_polygon_step ::
  "real \<Rightarrow> real \<Rightarrow> (real \<times> real) list \<Rightarrow> nat \<Rightarrow> pip_state \<Rightarrow> py_error + pip_state" where
  "point_in_polygon_step x y polygon i st =
     (case st of ((p1x, p1y), xinters, inside) \<Rightarrow>
        case polygon ! (i mod length polygon) of (p2x, p2y) \<Rightarrow>
          if y > min p1y p2y then
            if y \<le> max p1y p2y then
              if x \<le> max p1x p2x then
                let xinters' = (if p1y \<noteq> p2y
                                then Some ((y - p1y) * (p2x - p1x) / (p2y - p1y) + p1x)
                                else xinters)
                in if p1x = p2x then Inr ((p2x, p2y), xinters', \<not> inside)
                   else (case xinters' of
                           None \<Rightarrow> Inl UnboundLocalError
                         | Some v \<Rightarrow> Inr ((p2x, p2y), xinters', if x \<le> v then \<not> inside else inside))
              else Inr ((p2x, p2y), xinters, inside)
            else Inr ((p2x, p2y), xinters, inside)
          else Inr ((p2x, p2y), xinters, inside))"

fun point_in_polygon_loop ::
  "real \<Rightarrow> real \<Rightarrow> (real \<times> real) list \<Rightarrow> nat list \<Rightarrow> pip_state \<Rightarrow> py_error + bool" where
  "point_in_polygon_loop x y polygon [] st = Inr (snd (snd st))"
| "point_in_polygon_loop x y polygon (i # is) st =
     (case point_in_polygon_step x y polygon i st of
        Inl e \<Rightarrow> Inl e
      | Inr st' \<Rightarrow> point_in_polygon_loop x y polygon is st')"

definition point_in_polygon :: "real \<Rightarrow> real \<Rightarrow> (real \<times> real) list \<Rightarrow> py_error + bool" where
  "point_in_polygon point_lon point_lat polygon =
     (let x = point_lon; y = point_lat; n = length polygon
      in case polygon of
           [] \<Rightarrow> Inl IndexError
         | p1 # _ \<Rightarrow> point_in_polygon_loop x y polygon [1..<n + 1] (p1, None, False))"

text \<open>
  Stated in the specification: the point-in-polygon test is the even-odd ray-casting
  rule (section 4.7). The rule is written here on its own, to be compared with the two
  loops: a point is inside a ring when the ray that leaves it along its parallel, towards
  increasing longitude, crosses an odd number of the edges of the closed ring (the edge
  after the last vertex returns to the first). \<open>meridian_at a b y\<close> is the longitude at
  which the line through \<open>a\<close> and \<open>b\<close> meets the parallel \<open>y\<close>. An edge crosses the ray when
  its ends lie on different sides of the parallel and it meets the parallel east of the
  point; the rule leaves open what happens on the boundary, and there are two readings:
  \<open>ray_crosses\<close> counts a vertex on the parallel as south of it and wants the meeting
  point strictly east, \<open>ray_crosses_closed\<close> counts a vertex on the parallel as north of
  it and accepts a meeting point at the point itself.
\<close>

definition meridian_at :: "coord \<Rightarrow> coord \<Rightarrow> real \<Rightarrow> real" where
  "meridian_at a b y = lon a + (y - lat a) * (lon b - lon a) / (lat b - lat a)"

definition ray_crosses :: "real \<Rightarrow> real \<Rightarrow> coord \<Rightarrow> coord \<Rightarrow> bool" where
  "ray_crosses plat plon a b = ((plat < lat a) \<noteq> (plat < lat b) \<and> plon < meridian_at a b plat)"

definition ray_crosses_closed :: "real \<Rightarrow> real \<Rightarrow> coord \<Rightarrow> coord \<Rightarrow> bool" where
  "ray_crosses_closed plat plon a b = ((lat a < plat) \<noteq> (lat b < plat) \<and> plon \<le> meridian_at a b plat)"

definition crossing_number :: "(coord \<Rightarrow> coord \<Rightarrow> bool) \<Rightarrow> coord list \<Rightarrow> nat" where
  "crossing_number crosses ring =
     length (filter (\<lambda>i. crosses (ring ! i) (ring ! (Suc i mod length ring))) [0..<length ring])"

definition even_odd_rule :: "(coord \<Rightarrow> coord \<Rightarrow> bool) \<Rightarrow> coord list \<Rightarrow> bool" where
  "even_odd_rule crosses ring = odd (crossing_number crosses ring)"

text \<open>A \<open>(lon, lat)\<close> tuple of the diagnostic script, as a vertex.\<close>

definition vertex :: "real \<times> real \<Rightarrow> coord" where
  "vertex p = \<lparr>lat = snd p, lon = fst p\<rparr>"

subsection \<open>Trajectory validation\<close>

text \<open>
  A trajectory point is the object \<open>{age, lat, lon}\<close>; \<open>isEndPoint\<close> is the property the
  filter sets, absent (false) on a fresh point.
\<close>

record tpoint = coord +
  age :: real
  isEndPoint :: bool

text \<open>
  \<open>filterInvalidTrajectoryPoints()\<close> works on the global \<open>trajectoryPoints\<close>; the model
  takes it as argument and returns its new value. \<open>filter_step\<close> is the loop body, on
  the state \<open>(validPoints, lastValidPoint)\<close>.
\<close>

definition filter_step :: "tpoint \<Rightarrow> tpoint list \<times> tpoint \<Rightarrow> tpoint list \<times> tpoint" where
  "filter_step pt st =
     (case st of (validPoints, lastValidPoint) \<Rightarrow>
        if lat pt < -90 \<or> lat pt > 90 \<or> lon pt < -180 \<or> lon pt > 180 then (validPoints, lastValidPoint)
        else
          let latDiff = \<bar>lat pt - lat lastValidPoint\<bar>;
              lonDiff = \<bar>lon pt - lon lastValidPoint\<bar>;
              ageDiff = age pt - age lastValidPoint;
              maxJumpPerMa = 3;
              expectedMaxJump = maxJumpPerMa * ageDiff;
              pt' = (if latDiff > expectedMaxJump \<or> lonDiff > expectedMaxJump
                     then pt\<lparr>isEndPoint := True\<rparr> else pt)
          in (validPoints @ [pt'], pt'))"

definition filterInvalidTrajectoryPoints :: "tpoint list \<Rightarrow> tpoint list" where
  "filterInvalidTrajectoryPoints trajectoryPoints =
     (if length trajectoryPoints < 2 then trajectoryPoints
      else fst (fold filter_step (drop 1 trajectoryPoints)
                  ([trajectoryPoints ! 0], trajectoryPoints ! 0)))"

text \<open>
  The loop of \<open>filterInvalidTrajectoryPoints\<close> read as a recursion over the remaining
  points, with the last valid point as argument: \<open>out_of_range\<close> is the test that skips
  a point, \<open>exceeds_budget\<close> the test that marks it (the jump is measured per coordinate:
  the latitudes or the longitudes differ by more than 3 degrees per unit of age).
  \<open>position\<close> is a point without its mark.
\<close>

definition out_of_range :: "tpoint \<Rightarrow> bool" where
  "out_of_range p = (lat p < -90 \<or> lat p > 90 \<or> lon p < -180 \<or> lon p > 180)"

definition exceeds_budget :: "tpoint \<Rightarrow> tpoint \<Rightarrow> bool" where
  "exceeds_budget prev p =
     (\<bar>lat p - lat prev\<bar> > 3 * (age p - age prev) \<or> \<bar>lon p - lon prev\<bar> > 3 * (age p - age prev))"

definition position :: "tpoint \<Rightarrow> real \<times> real \<times> real" where
  "position p = (age p, lat p, lon p)"

fun walk :: "tpoint \<Rightarrow> tpoint list \<Rightarrow> tpoint list" where
  "walk prev [] = []"
| "walk prev (p # ps) =
     (if out_of_range p then walk prev ps
      else if exceeds_budget prev p
           then p\<lparr>isEndPoint := True\<rparr> # walk (p\<lparr>isEndPoint := True\<rparr>) ps
           else p # walk p ps)"

text \<open>
  Stated in the specification, not in the code: the displacement between two positions is
  the Euclidean distance in (lat, lon) (section 4.4), and the validator compares the
  displacement of a consecutive pair with the budget (section 4.6). The code has no such
  quantity; \<open>spec_displacement\<close> is there to be compared with \<open>exceeds_budget\<close>.
\<close>

definition spec_displacement :: "tpoint \<Rightarrow> tpoint \<Rightarrow> real" where
  "spec_displacement prev p = sqrt ((lat p - lat prev)\<^sup>2 + (lon p - lon prev)\<^sup>2)"

subsection \<open>The reconstruction service as the browser sees it\<close>

text \<open>
  Both \<open>findAnchorPoint\<close> and \<open>generateFullTrajectoryAsync\<close> call
  \<open>fetch(LOCAL_PROXY/reconstruct/reconstruct_points/?points=lon,lat&time=age&model=name)\<close>
  and read \<open>data.coordinates[0]\<close>, a pair \<open>[lon, lat]\<close>. The service is a parameter of
  the model: a function of the four values in the URL. Its reply is \<open>Rejected\<close> when the
  promise rejects (the \<open>catch\<close> branches), \<open>NotOk\<close> when \<open>response.ok\<close> is false, and
  otherwise the parsed body: \<open>Body None\<close> has no \<open>coordinates\<close>, \<open>Body (Some cs)\<close>
  has the array \<open>cs\<close> of \<open>(lon, lat)\<close> pairs.
\<close>

datatype reply = Rejected | NotOk | Body "(real \<times> real) list option"

type_synonym service = "real \<Rightarrow> real \<Rightarrow> real \<Rightarrow> string \<Rightarrow> reply"

subsection \<open>Anchor resolution\<close>

record probe = coord +
  movement :: real
  dist :: real

record anchor =
  anchorLat :: real
  anchorLon :: real
  offsetLat :: real
  offsetLon :: real

definition testAge :: real where
  "testAge = 50"

definition searchDistances :: "real list" where
  "searchDistances = [1, 2, 3, 5, 8, 10, 15, 20]"

definition searchAngles :: "real list" where
  "searchAngles = [0, 45, 90, 135, 180, 225, 270, 315]"

text \<open>The function mapped over \<open>searchAngles\<close>: one probe at distance \<open>d\<close> and \<open>angle\<close>.\<close>

definition test_probe :: "service \<Rightarrow> string \<Rightarrow> real \<Rightarrow> real \<Rightarrow> real \<Rightarrow> real \<Rightarrow> probe option" where
  "test_probe fetch modelName plat plon d angle =
     (let rad = angle * pi / 180;
          testLat = max (-85) (min 85 (plat + d * cos rad));
          testLon = plon + d * sin rad
      in case fetch testLon testLat testAge modelName of
           Body (Some (c # cs)) \<Rightarrow>
             let rLat = snd c;
                 rLon = fst c;
                 mov = sqrt ((rLat - testLat)\<^sup>2 + (rLon - testLon)\<^sup>2)
             in Some \<lparr>lat = testLat, lon = testLon, movement = mov, dist = d\<rparr>
         | _ \<Rightarrow> None)"

text \<open>The body of \<open>for (const r of results)\<close>, on the state \<open>(bestAnchor, bestMovement)\<close>.\<close>

definition keep_best :: "probe option \<Rightarrow> probe option \<times> real \<Rightarrow> probe option \<times> real" where
  "keep_best r st =
     (case st of (bestAnchor, bestMovement) \<Rightarrow>
        case r of
          Some p \<Rightarrow> if movement p > 0.5 \<and> movement p > bestMovement then (Some p, movement p)
                    else (bestAnchor, bestMovement)
        | None \<Rightarrow> (bestAnchor, bestMovement))"

text \<open>The loop \<open>for (const dist of searchDistances)\<close> with its \<open>break\<close>.\<close>

fun search_loop ::
  "service \<Rightarrow> string \<Rightarrow> real \<Rightarrow> real \<Rightarrow> real list \<Rightarrow> probe option \<times> real \<Rightarrow> probe option \<times> real" where
  "search_loop fetch modelName plat plon [] st = st"
| "search_loop fetch modelName plat plon (d # ds) st =
     (let results = map (test_probe fetch modelName plat plon d) searchAngles;
          st' = fold keep_best results st
      in if fst st' \<noteq> None \<and> snd st' > 2 then st'
         else search_loop fetch modelName plat plon ds st')"

text \<open>
  The first test of \<open>findAnchorPoint\<close>: whether the original point moved by more than
  0.5 degrees at \<open>testAge\<close>. Every failure of the request falls through to the search.
\<close>

definition point_moved :: "service \<Rightarrow> real \<Rightarrow> real \<Rightarrow> string \<Rightarrow> bool" where
  "point_moved fetch plat plon modelName =
     (case fetch plon plat testAge modelName of
        Body (Some (c # cs)) \<Rightarrow>
          let reconLat = snd c;
              reconLon = fst c;
              mov = sqrt ((reconLat - plat)\<^sup>2 + (reconLon - plon)\<^sup>2)
          in mov > 0.5
      | _ \<Rightarrow> False)"

definition findAnchorPoint :: "service \<Rightarrow> real \<Rightarrow> real \<Rightarrow> string \<Rightarrow> anchor option" where
  "findAnchorPoint fetch plat plon modelName =
     (if point_moved fetch plat plon modelName then None
      else case search_loop fetch modelName plat plon searchDistances (None, 0) of
             (Some bestAnchor, bestMovement) \<Rightarrow>
               Some \<lparr>anchorLat = lat bestAnchor, anchorLon = lon bestAnchor,
                     offsetLat = plat - lat bestAnchor, offsetLon = plon - lon bestAnchor\<rparr>
           | (None, bestMovement) \<Rightarrow> None)"

subsection \<open>Trajectory generation\<close>


text \<open>
  The promise made for one age: the request for the point \<open>(reconLat, reconLon)\<close>, and
  what its \<open>then\<close> and \<open>catch\<close> handlers return.
\<close>

definition age_promise ::
  "service \<Rightarrow> string \<Rightarrow> anchor option \<Rightarrow> real \<Rightarrow> real \<Rightarrow> real \<Rightarrow> real \<Rightarrow> real \<Rightarrow> tpoint" where
  "age_promise fetch modelName anch plat plon reconLat reconLon a =
     (case fetch reconLon reconLat a modelName of
        Body (Some (c # cs)) \<Rightarrow>
          let resultLat = snd c;
              resultLon = fst c
          in (case anch of
                Some an \<Rightarrow> \<lparr>lat = resultLat + offsetLat an, lon = resultLon + offsetLon an,
                             age = a, isEndPoint = False\<rparr>
              | None \<Rightarrow> \<lparr>lat = resultLat, lon = resultLon, age = a, isEndPoint = False\<rparr>)
      | _ \<Rightarrow> \<lparr>lat = plat, lon = plon, age = a, isEndPoint = False\<rparr>)"





definition point_at_age :: "service \<Rightarrow> string \<Rightarrow> real \<Rightarrow> real \<Rightarrow> real \<Rightarrow> tpoint" where
  "point_at_age fetch modelName plat plon a =
     (let anch = findAnchorPoint fetch plat plon modelName
      in age_promise fetch modelName anch plat plon
           (case anch of Some an \<Rightarrow> anchorLat an | None \<Rightarrow> plat)
           (case anch of Some an \<Rightarrow> anchorLon an | None \<Rightarrow> plon) a)"

subsection \<open>Cache key derivation\<close>

text \<open>
  \<open>get_cache_path(url)\<close> is \<open>CACHE_DIR / (hashlib.md5(url.encode()).hexdigest() + ".json")\<close>,
  with the same text in \<open>simulator.py\<close>, \<open>download_gplates_cache.py\<close>,
  \<open>download_gplates_full.py\<close> and \<open>test_sync.py\<close>. \<open>hashlib.md5\<close> is the MD5 of
  RFC 1321, written out here on 32-bit words so that a cache key can be computed: the
  table of constants, the shift amounts, the padding with the length in bits, the 64
  rounds of a block, and the digest as little-endian bytes in lower-case hexadecimal.
\<close>

definition md5_K :: "32 word list" where
  "md5_K =
     [0xd76aa478, 0xe8c7b756, 0x242070db, 0xc1bdceee,
      0xf57c0faf, 0x4787c62a, 0xa8304613, 0xfd469501,
      0x698098d8, 0x8b44f7af, 0xffff5bb1, 0x895cd7be,
      0x6b901122, 0xfd987193, 0xa679438e, 0x49b40821,
      0xf61e2562, 0xc040b340, 0x265e5a51, 0xe9b6c7aa,
      0xd62f105d, 0x02441453, 0xd8a1e681, 0xe7d3fbc8,
      0x21e1cde6, 0xc33707d6, 0xf4d50d87, 0x455a14ed,
      0xa9e3e905, 0xfcefa3f8, 0x676f02d9, 0x8d2a4c8a,
      0xfffa3942, 0x8771f681, 0x6d9d6122, 0xfde5380c,
      0xa4beea44, 0x4bdecfa9, 0xf6bb4b60, 0xbebfbc70,
      0x289b7ec6, 0xeaa127fa, 0xd4ef3085, 0x04881d05,
      0xd9d4d039, 0xe6db99e5, 0x1fa27cf8, 0xc4ac5665,
      0xf4292244, 0x432aff97, 0xab9423a7, 0xfc93a039,
      0x655b59c3, 0x8f0ccc92, 0xffeff47d, 0x85845dd1,
      0x6fa87e4f, 0xfe2ce6e0, 0xa3014314, 0x4e0811a1,
      0xf7537e82, 0xbd3af235, 0x2ad7d2bb, 0xeb86d391]"

definition md5_s :: "nat list" where
  "md5_s =
     [7, 12, 17, 22, 7, 12, 17, 22, 7, 12, 17, 22, 7, 12, 17, 22,
      5, 9, 14, 20, 5, 9, 14, 20, 5, 9, 14, 20, 5, 9, 14, 20,
      4, 11, 16, 23, 4, 11, 16, 23, 4, 11, 16, 23, 4, 11, 16, 23,
      6, 10, 15, 21, 6, 10, 15, 21, 6, 10, 15, 21, 6, 10, 15, 21]"

definition leftrotate :: "32 word \<Rightarrow> nat \<Rightarrow> 32 word" where
  "leftrotate x c = push_bit c x OR drop_bit (32 - c) x"

definition md5_pad :: "8 word list \<Rightarrow> 8 word list" where
  "md5_pad bs =
     bs @ [0x80] @ replicate ((119 - length bs mod 64) mod 64) 0 @
     map (\<lambda>i. ucast (drop_bit (8 * i) (of_nat (8 * length bs) :: 64 word))) [0..<8]"

fun le_word :: "8 word list \<Rightarrow> 32 word" where
  "le_word [] = 0"
| "le_word (b # bs) = ucast b OR push_bit 8 (le_word bs)"

fun md5_words :: "nat \<Rightarrow> 8 word list \<Rightarrow> 32 word list" where
  "md5_words 0 bs = []"
| "md5_words (Suc n) bs = le_word (take 4 bs) # md5_words n (drop 4 bs)"

type_synonym md5_state = "32 word \<times> 32 word \<times> 32 word \<times> 32 word"

definition md5_round :: "32 word list \<Rightarrow> nat \<Rightarrow> md5_state \<Rightarrow> md5_state" where
  "md5_round M i st =
     (case st of (A, B, C, D) \<Rightarrow>
        let (F, g) =
              (if i < 16 then ((B AND C) OR (NOT B AND D), i)
               else if i < 32 then ((D AND B) OR (NOT D AND C), (5 * i + 1) mod 16)
               else if i < 48 then (B XOR C XOR D, (3 * i + 5) mod 16)
               else (C XOR (B OR NOT D), (7 * i) mod 16));
            F' = F + A + md5_K ! i + M ! g
        in (D, B + leftrotate F' (md5_s ! i), B, C))"

definition md5_block :: "md5_state \<Rightarrow> 8 word list \<Rightarrow> md5_state" where
  "md5_block st chunk =
     (case st of (a0, b0, c0, d0) \<Rightarrow>
        case fold (md5_round (md5_words 16 chunk)) [0..<64] (a0, b0, c0, d0) of
          (A, B, C, D) \<Rightarrow> (a0 + A, b0 + B, c0 + C, d0 + D))"

fun md5_blocks :: "nat \<Rightarrow> md5_state \<Rightarrow> 8 word list \<Rightarrow> md5_state" where
  "md5_blocks 0 st bs = st"
| "md5_blocks (Suc n) st bs = md5_blocks n (md5_block st (take 64 bs)) (drop 64 bs)"

definition word_bytes :: "32 word \<Rightarrow> 8 word list" where
  "word_bytes w = map (\<lambda>i. ucast (drop_bit (8 * i) w)) [0..<4]"

definition md5_digest :: "8 word list \<Rightarrow> 8 word list" where
  "md5_digest bs =
     (let padded = md5_pad bs
      in case md5_blocks (length padded div 64)
                (0x67452301, 0xefcdab89, 0x98badcfe, 0x10325476) padded of
           (a0, b0, c0, d0) \<Rightarrow> word_bytes a0 @ word_bytes b0 @ word_bytes c0 @ word_bytes d0)"

definition hex_digit :: "nat \<Rightarrow> char" where
  "hex_digit n = ''0123456789abcdef'' ! n"

definition hexdigest :: "8 word list \<Rightarrow> string" where
  "hexdigest bs = concat (map (\<lambda>b. [hex_digit (unat b div 16), hex_digit (unat b mod 16)]) bs)"

text \<open>
  \<open>url.encode()\<close> is the UTF-8 encoding of the URL. The URL of the proxy comes from the
  request line, which \<open>http.server\<close> decodes as ISO-8859-1, and the URLs of the
  downloaders and of the diagnostic script are ASCII: its characters are code points below
  256, the characters of a \<open>string\<close>. UTF-8 encodes a code point below 128 as one byte
  and a code point from 128 to 255 as two.
\<close>

definition utf8 :: "char \<Rightarrow> 8 word list" where
  "utf8 c =
     (if (of_char c :: nat) < 0x80 then [of_char c]
      else [0xC0 OR drop_bit 6 (of_char c), 0x80 OR (of_char c AND 0x3F)])"

definition encode :: "string \<Rightarrow> 8 word list" where
  "encode s = concat (map utf8 s)"

definition md5_hex :: "string \<Rightarrow> string" where
  "md5_hex s = hexdigest (md5_digest (encode s))"

definition CACHE_DIR :: string where
  "CACHE_DIR = ''gplates_cache''"

definition get_cache_path :: "string \<Rightarrow> string" where
  "get_cache_path url = (let url_hash = md5_hex url in CACHE_DIR @ ''/'' @ url_hash @ ''.json'')"

subsection \<open>The disk cache and the proxy\<close>

text \<open>
  The cache directory is a map from paths to files; a file that exists may fail to be
  read (\<open>read_text\<close> raising inside \<open>load_from_disk_cache\<close>). A write that the file
  system refuses is caught and logged by \<open>save_to_disk_cache\<close>; the disk of the model
  accepts every write.
\<close>

datatype cache_file = Text string | Unreadable

type_synonym disk = "string \<rightharpoonup> cache_file"

definition load_from_disk_cache :: "disk \<Rightarrow> string \<Rightarrow> string option" where
  "load_from_disk_cache d url =
     (let cache_path = get_cache_path url
      in case d cache_path of
           Some (Text t) \<Rightarrow> Some t
         | Some Unreadable \<Rightarrow> None
         | None \<Rightarrow> None)"

definition save_to_disk_cache :: "disk \<Rightarrow> string \<Rightarrow> string \<Rightarrow> disk" where
  "save_to_disk_cache d url data = (let cache_path = get_cache_path url in d(cache_path \<mapsto> Text data))"

text \<open>
  The origin service: \<open>urllib.request.urlopen(url, timeout=30)\<close>, then \<open>read()\<close> and
  \<open>decode('utf-8')\<close>. Any exception on the way is \<open>Failed\<close> with its message.
\<close>

datatype http_reply = Failed string | Payload string

type_synonym origin = "string \<Rightarrow> http_reply"

text \<open>
  The state of the proxy is the module's dictionary \<open>GPLATES_MEMORY_CACHE\<close> and the cache
  directory. \<open>do_GET\<close> takes the two parts of the request that it reads from
  \<open>urlparse(self.path)\<close>, and returns the response it sends, the new state and the
  number of calls of \<open>urlopen\<close> it made. \<open>if disk_data:\<close> is false for \<open>None\<close> and
  for the empty text.
\<close>

record proxy_state =
  memory :: "string \<rightharpoonup> string"
  disk :: disk

datatype response = Json200 string | Error404 string

definition GPLATES_BASE_URL :: string where
  "GPLATES_BASE_URL = ''https://gws.gplates.org''"

definition gplates_url :: "string \<Rightarrow> string \<Rightarrow> string" where
  "gplates_url parsed_path parsed_query =
     (GPLATES_BASE_URL @ parsed_path) @ (if parsed_query \<noteq> [] then ''?'' @ parsed_query else [])"

definition do_GET :: "origin \<Rightarrow> proxy_state \<Rightarrow> string \<Rightarrow> string \<Rightarrow> response \<times> proxy_state \<times> nat" where
  "do_GET org st parsed_path parsed_query =
     (let url = gplates_url parsed_path parsed_query
      in case memory st url of
           Some cached \<Rightarrow> (Json200 cached, st, 0)
         | None \<Rightarrow>
             (let disk_data = load_from_disk_cache (disk st) url
              in case disk_data of
                   Some (c # cs) \<Rightarrow>
                     (Json200 (c # cs), st\<lparr>memory := (memory st)(url \<mapsto> c # cs)\<rparr>, 0)
                 | _ \<Rightarrow>
                     (case org url of
                        Payload data \<Rightarrow>
                          (Json200 data,
                           st\<lparr>disk := save_to_disk_cache (disk st) url data,
                              memory := (memory st)(url \<mapsto> data)\<rparr>,
                           1)
                      | Failed e \<Rightarrow> (Error404 (''Dados nao encontrados: '' @ e), st, 1))))"

text \<open>
  \<open>download_and_cache(url)\<close> of the two downloaders. \<open>json.loads\<close> is a parameter: it
  gives the message of the exception it raises, or nothing when the text parses.
\<close>

definition download_and_cache ::
  "(string \<Rightarrow> string option) \<Rightarrow> origin \<Rightarrow> disk \<Rightarrow> string \<Rightarrow> (string \<times> bool \<times> string) \<times> disk" where
  "download_and_cache json_loads org d url =
     (let cache_path = get_cache_path url
      in if d cache_path \<noteq> None then ((url, True, ''cached''), d)
         else (case org url of
                 Failed e \<Rightarrow> ((url, False, e), d)
               | Payload data \<Rightarrow>
                   (case json_loads data of
                      Some e \<Rightarrow> ((url, False, e), d)
                    | None \<Rightarrow> ((url, True, ''downloaded''), d(cache_path \<mapsto> Text data)))))"

section \<open>Properties\<close>

subsection \<open>Splitting at the date line\<close>

lemma split_step_first: "split_step c (segs, []) = (segs, [c])"
  by (simp add: split_step_def)

lemma split_step_jump:
  "cur \<noteq> [] \<Longrightarrow> \<bar>lon c - lon (last cur)\<bar> > 180 \<Longrightarrow> split_step c (segs, cur) = (segs @ [cur], [c])"
  by (simp add: split_step_def Let_def)

lemma split_step_near:
  "cur \<noteq> [] \<Longrightarrow> \<not> \<bar>lon c - lon (last cur)\<bar> > 180 \<Longrightarrow> split_step c (segs, cur) = (segs, cur @ [c])"
  by (simp add: split_step_def Let_def)

text \<open>The three ways one iteration can go, as a case rule for the loop invariants.\<close>

lemma fold_split_Cons_cases:
  assumes "fold split_step (x # xs) (segs, cur) = r"
  obtains (first) "cur = []" "fold split_step xs (segs, [x]) = r"
  | (jump) "cur \<noteq> []" "\<bar>lon x - lon (last cur)\<bar> > 180" "fold split_step xs (segs @ [cur], [x]) = r"
  | (near) "cur \<noteq> []" "\<not> \<bar>lon x - lon (last cur)\<bar> > 180" "fold split_step xs (segs, cur @ [x]) = r"
proof (cases "cur = []")
  case True
  with assms first show ?thesis by (simp add: split_step_first)
next
  case False
  show ?thesis
  proof (cases "\<bar>lon x - lon (last cur)\<bar> > 180")
    case True
    with False assms jump show ?thesis by (simp add: split_step_jump)
  next
    case no: False
    with False assms near show ?thesis by (simp add: split_step_near)
  qed
qed

lemma fold_split_concat:
  "fold split_step xs (segs, cur) = (segs', cur') \<Longrightarrow> concat segs' @ cur' = concat segs @ cur @ xs"
proof (induction xs arbitrary: segs cur)
  case Nil
  then show ?case by simp
next
  case (Cons x xs)
  from Cons.prems show ?case
  proof (cases rule: fold_split_Cons_cases)
    case first
    from Cons.IH [OF first(2)] first(1) show ?thesis by simp
  next
    case jump
    from Cons.IH [OF jump(3)] show ?thesis by simp
  next
    case near
    from Cons.IH [OF near(3)] show ?thesis by simp
  qed
qed

lemma fold_split_smooth:
  "fold split_step xs (segs, cur) = (segs', cur') \<Longrightarrow>
   list_all (successively smooth_edge) segs \<Longrightarrow> successively smooth_edge cur \<Longrightarrow>
   list_all (successively smooth_edge) segs' \<and> successively smooth_edge cur'"
proof (induction xs arbitrary: segs cur)
  case Nil
  then show ?case by simp
next
  case (Cons x xs)
  from Cons.prems(1) show ?case
  proof (cases rule: fold_split_Cons_cases)
    case first
    from Cons.IH [OF first(2)] Cons.prems show ?thesis by simp
  next
    case jump
    from Cons.IH [OF jump(3)] Cons.prems show ?thesis by simp
  next
    case near
    from near(1,2) Cons.prems(3) have "successively smooth_edge (cur @ [x])"
      by (simp add: successively_append_iff smooth_edge_def)
    from Cons.IH [OF near(3) Cons.prems(2) this] show ?thesis .
  qed
qed

lemma fold_split_mono:
  "fold split_step xs (segs, cur) = (segs', cur') \<Longrightarrow>
   length segs \<le> length segs' \<and> (cur \<noteq> [] \<or> xs \<noteq> [] \<longrightarrow> cur' \<noteq> [])"
proof (induction xs arbitrary: segs cur)
  case Nil
  then show ?case by simp
next
  case (Cons x xs)
  from Cons.prems(1) show ?case
  proof (cases rule: fold_split_Cons_cases)
    case first
    from Cons.IH [OF first(2)] show ?thesis by simp
  next
    case jump
    from Cons.IH [OF jump(3)] show ?thesis by simp
  next
    case near
    from Cons.IH [OF near(3)] show ?thesis by simp
  qed
qed

lemma fold_split_jump:
  "fold split_step xs (segs, cur) = (segs', cur') \<Longrightarrow> cur \<noteq> [] \<Longrightarrow>
   \<not> successively smooth_edge (last cur # xs) \<Longrightarrow> length segs < length segs'"
proof (induction xs arbitrary: segs cur)
  case Nil
  then show ?case by simp
next
  case (Cons x xs)
  from Cons.prems(1) show ?case
  proof (cases rule: fold_split_Cons_cases)
    case first
    with Cons.prems show ?thesis by simp
  next
    case jump
    from fold_split_mono [OF jump(3)] show ?thesis by simp
  next
    case near
    from near(2) Cons.prems(3) have "\<not> successively smooth_edge (last (cur @ [x]) # xs)"
      by (simp add: smooth_edge_def)
    from Cons.IH [OF near(3) _ this] show ?thesis by simp
  qed
qed

lemma splitAtDateLine_fold:
  "fold split_step xs ([], []) = (segs, cur) \<Longrightarrow>
   splitAtDateLine xs = (if cur = [] then segs else segs @ [cur])"
  by (simp add: splitAtDateLine_def)

lemma splitAtDateLine_smooth: "list_all (successively smooth_edge) (splitAtDateLine xs)"
proof -
  obtain segs cur where f: "fold split_step xs ([], []) = (segs, cur)"
    by (cases "fold split_step xs ([], [])")
  from fold_split_smooth [OF f] show ?thesis
    by (simp add: splitAtDateLine_fold [OF f])
qed

lemma splitAtDateLine_two:
  assumes "\<not> successively smooth_edge xs"
  shows "2 \<le> length (splitAtDateLine xs)"
proof (cases xs)
  case Nil
  with assms show ?thesis by simp
next
  case (Cons x rest)
  obtain segs cur where f: "fold split_step xs ([], []) = (segs, cur)"
    by (cases "fold split_step xs ([], [])")
  then have g: "fold split_step rest ([], [x]) = (segs, cur)"
    by (simp add: Cons split_step_first)
  from assms Cons have "\<not> successively smooth_edge (last [x] # rest)" by simp
  from fold_split_jump [OF g _ this] fold_split_mono [OF g]
  have "0 < length segs" "cur \<noteq> []" by simp_all
  then show ?thesis
    by (cases segs) (simp_all add: splitAtDateLine_fold [OF f])
qed

text \<open>
  Claim C10. For every coordinate list, the segments that \<open>splitAtDateLine\<close> returns,
  concatenated in order, are the input list itself: no vertex is dropped, duplicated or
  moved. The empty input gives the empty list of segments.
\<close>

theorem splitAtDateLine_concat: "concat (splitAtDateLine coordinates) = coordinates \<and> splitAtDateLine [] = []"
proof
  obtain segs cur where f: "fold split_step coordinates ([], []) = (segs, cur)"
    by (cases "fold split_step coordinates ([], [])")
  from fold_split_concat [OF f] show "concat (splitAtDateLine coordinates) = coordinates"
    by (auto simp add: splitAtDateLine_fold [OF f])
next
  show "splitAtDateLine [] = []" by (simp add: splitAtDateLine_def)
qed

text \<open>
  Claim C8. When two consecutive vertices of a ring differ by more than 180 degrees of
  longitude (as the longitudes 179 and -179 do), \<open>splitAtDateLine\<close> returns at least
  two segments, and inside every returned segment consecutive vertices differ by at most
  180 degrees of longitude.
\<close>

theorem splitAtDateLine_antimeridian:
  assumes "Suc i < length ring" and "\<bar>lon (ring ! Suc i) - lon (ring ! i)\<bar> > 180"
  shows "2 \<le> length (splitAtDateLine ring) \<and>
         (\<forall>seg \<in> set (splitAtDateLine ring). \<forall>j. Suc j < length seg \<longrightarrow>
            \<bar>lon (seg ! Suc j) - lon (seg ! j)\<bar> \<le> 180)"
proof
  from assms have "\<not> successively smooth_edge ring"
    by (auto simp: successively_conv_nth smooth_edge_def)
  then show "2 \<le> length (splitAtDateLine ring)" by (rule splitAtDateLine_two)
next
  from splitAtDateLine_smooth [of ring]
  show "\<forall>seg \<in> set (splitAtDateLine ring). \<forall>j. Suc j < length seg \<longrightarrow>
            \<bar>lon (seg ! Suc j) - lon (seg ! j)\<bar> \<le> 180"
    by (auto simp: list_all_iff successively_conv_nth smooth_edge_def)
qed

theorem splitAtDateLine_antimeridian_witness:
  "Suc 0 < length [\<lparr>lat = 10, lon = 179\<rparr>, \<lparr>lat = 10, lon = -179\<rparr>, \<lparr>lat = 12, lon = -178\<rparr>] \<and>
   \<bar>lon ([\<lparr>lat = 10, lon = 179\<rparr>, \<lparr>lat = 10, lon = -179\<rparr>, \<lparr>lat = 12, lon = -178\<rparr>] ! Suc 0)
     - lon ([\<lparr>lat = 10, lon = 179\<rparr>, \<lparr>lat = 10, lon = -179\<rparr>, \<lparr>lat = 12, lon = -178\<rparr>] ! 0)\<bar> > 180 \<and>
   2 \<le> length (splitAtDateLine [\<lparr>lat = 10, lon = 179\<rparr>, \<lparr>lat = 10, lon = -179\<rparr>, \<lparr>lat = 12, lon = -178\<rparr>]) \<and>
   splitAtDateLine [\<lparr>lat = 10, lon = 179\<rparr>, \<lparr>lat = 10, lon = -179\<rparr>, \<lparr>lat = 12, lon = -178\<rparr>]
     = [[\<lparr>lat = 10, lon = 179\<rparr>], [\<lparr>lat = 10, lon = -179\<rparr>, \<lparr>lat = 12, lon = -178\<rparr>]]"
  using splitAtDateLine_antimeridian [of 0 "[\<lparr>lat = 10, lon = 179\<rparr>, \<lparr>lat = 10, lon = -179\<rparr>, \<lparr>lat = 12, lon = -178\<rparr>]"]
  by (simp add: splitAtDateLine_def split_step_def)

subsection \<open>Point in polygon\<close>

lemma upt_0_4: "[0..<4] = [0, 1, 2, 3]"
  by (simp add: upt_rec)

lemma upt_1_5: "[1..<5] = [1, 2, 3, 4]"
  by (simp add: upt_rec)

text \<open>
  Both tests on the square of the spec, for every test point: the browser's test takes
  the square closed on its low sides, the diagnostic script's on its high sides.
\<close>

lemma isPointInPolygon_square:
  "isPointInPolygon y x [\<lparr>lat = 0, lon = 0\<rparr>, \<lparr>lat = 0, lon = 10\<rparr>, \<lparr>lat = 10, lon = 10\<rparr>, \<lparr>lat = 10, lon = 0\<rparr>]
   = (0 \<le> y \<and> y < 10 \<and> 0 \<le> x \<and> x < 10)"
  by (auto simp add: isPointInPolygon_def pip_step_def upt_0_4)

lemma point_in_polygon_square:
  "point_in_polygon x y [(0, 0), (10, 0), (10, 10), (0, 10)]
   = Inr (0 < y \<and> y \<le> 10 \<and> 0 < x \<and> x \<le> 10)"
  by (auto simp add: point_in_polygon_def point_in_polygon_step_def upt_1_5)

text \<open>
  The loop of \<open>isPointInPolygon\<close> toggles \<open>inside\<close> once for every edge that crosses the
  ray: the edge from the vertex \<open>j\<close> to the vertex \<open>i\<close>, the first of them closing the ring
  from the last vertex to the first.
\<close>

lemma meridian_at_sym: "lat a \<noteq> lat b \<Longrightarrow> meridian_at a b y = meridian_at b a y"
  by (simp add: meridian_at_def field_simps)

lemma pip_step_crosses:
  "pip_step plat plon polygon i (j, b) = (i, b \<noteq> ray_crosses plat plon (polygon ! j) (polygon ! i))"
proof (cases "lat (polygon ! i) = lat (polygon ! j)")
  case True
  then show ?thesis by (simp add: pip_step_def ray_crosses_def Let_def)
next
  case False
  then have "meridian_at (polygon ! j) (polygon ! i) plat =
     (lon (polygon ! j) - lon (polygon ! i)) * (plat - lat (polygon ! i)) / (lat (polygon ! j) - lat (polygon ! i)) + lon (polygon ! i)"
    using meridian_at_sym [of "polygon ! j" "polygon ! i" plat]
    by (simp add: meridian_at_def mult.commute add.commute)
  then show ?thesis by (auto simp add: pip_step_def ray_crosses_def Let_def)
qed

lemma fold_pip_step:
  "fold (pip_step plat plon polygon) (map Suc [0..<m]) (0, b) =
     (m, b \<noteq> odd (length (filter (\<lambda>k. ray_crosses plat plon (polygon ! k) (polygon ! Suc k)) [0..<m])))"
  by (induction m) (auto simp add: pip_step_crosses)

lemma crossing_number_Suc:
  "length ring = Suc m \<Longrightarrow>
   crossing_number crosses ring =
     length (filter (\<lambda>k. crosses (ring ! k) (ring ! Suc k)) [0..<m]) +
     (if crosses (ring ! m) (ring ! 0) then 1 else 0)"
proof -
  assume n: "length ring = Suc m"
  have "filter (\<lambda>i. crosses (ring ! i) (ring ! (Suc i mod Suc m))) [0..<m] =
        filter (\<lambda>k. crosses (ring ! k) (ring ! Suc k)) [0..<m]"
    by (rule filter_cong) simp_all
  then show ?thesis by (simp add: crossing_number_def n)
qed

lemma isPointInPolygon_crossings:
  "isPointInPolygon plat plon polygon = even_odd_rule (ray_crosses plat plon) polygon"
proof (cases "length polygon")
  case 0
  then show ?thesis by (simp add: isPointInPolygon_def even_odd_rule_def crossing_number_def)
next
  case (Suc m)
  have u: "[0..<Suc m] = 0 # map Suc [0..<m]" by (simp add: upt_conv_Cons map_Suc_upt del: upt_Suc)
  show ?thesis
    unfolding isPointInPolygon_def even_odd_rule_def crossing_number_Suc [OF Suc] Let_def Suc u
    by (simp add: pip_step_crosses fold_pip_step del: upt_Suc)
qed

text \<open>
  The loop of \<open>point_in_polygon\<close>: between the ends of an edge the intersection is bound
  before it is read (the ends differ in latitude), and it lies west of the eastern end,
  so the test \<open>x <= max(p1x, p2x)\<close> and the case \<open>p1x == p2x\<close> change nothing.
\<close>

lemma xinters_le_max:
  fixes y :: real
  assumes "min p1y p2y < y" "y \<le> max p1y p2y"
  shows "(y - p1y) * (p2x - p1x) / (p2y - p1y) + p1x \<le> max p1x p2x"
proof -
  define t where "t = (y - p1y) / (p2y - p1y)"
  from assms have ne: "p1y \<noteq> p2y" by auto
  have t0: "0 \<le> t" using assms ne unfolding t_def by (auto simp add: min_def max_def field_simps divide_nonneg_nonneg divide_nonpos_nonpos split: if_splits)
  have t1: "t \<le> 1" using assms ne unfolding t_def by (auto simp add: min_def max_def field_simps split: if_splits)
  have e: "(y - p1y) * (p2x - p1x) / (p2y - p1y) + p1x = p1x + t * (p2x - p1x)"
    by (simp add: t_def)
  show ?thesis
  proof (cases "p1x \<le> p2x")
    case True
    then have "t * (p2x - p1x) \<le> 1 * (p2x - p1x)" using t1 by (intro mult_right_mono) simp_all
    with True show ?thesis unfolding e by simp
  next
    case False
    then have "t * (p2x - p1x) \<le> 0" using t0 by (simp add: mult_nonneg_nonpos)
    with False show ?thesis unfolding e by simp
  qed
qed

lemma point_in_polygon_step_crosses:
  "\<exists>xinters'. point_in_polygon_step x y polygon i (p1, xinters, b) =
     Inr (polygon ! (i mod length polygon), xinters',
          b \<noteq> ray_crosses_closed y x (vertex p1) (vertex (polygon ! (i mod length polygon))))"
proof -
  obtain p1x p1y where p1: "p1 = (p1x, p1y)" by (cases p1)
  obtain p2x p2y where p2: "polygon ! (i mod length polygon) = (p2x, p2y)"
    by (cases "polygon ! (i mod length polygon)")
  have sides: "(min p1y p2y < y \<and> y \<le> max p1y p2y) = ((p1y < y) \<noteq> (p2y < y))"
    by (auto simp add: min_def max_def)
  show ?thesis
  proof (cases "min p1y p2y < y \<and> y \<le> max p1y p2y")
    case False
    then have "\<not> ray_crosses_closed y x (vertex p1) (vertex (p2x, p2y))"
      using sides by (simp add: ray_crosses_closed_def vertex_def p1)
    with False show ?thesis
      by (auto simp add: point_in_polygon_step_def p1 p2)
  next
    case True
    then have ne: "p1y \<noteq> p2y" by auto
    let ?v = "(y - p1y) * (p2x - p1x) / (p2y - p1y) + p1x"
    have m: "meridian_at (vertex p1) (vertex (p2x, p2y)) y = ?v"
      by (simp add: meridian_at_def vertex_def p1)
    have le: "?v \<le> max p1x p2x" using True by (intro xinters_le_max) simp_all
    have c: "ray_crosses_closed y x (vertex p1) (vertex (p2x, p2y)) = (x \<le> ?v)"
      using True sides m by (simp add: ray_crosses_closed_def vertex_def p1)
    show ?thesis
    proof (cases "x \<le> max p1x p2x")
      case False
      with le have "\<not> x \<le> ?v" by linarith
      with False True c show ?thesis
        by (simp add: point_in_polygon_step_def p1 p2)
    next
      case xm: True
      show ?thesis
      proof (cases "p1x = p2x")
        case True
        then have "?v = p1x" by simp
        with True xm have "x \<le> ?v" by simp
        with True xm \<open>min p1y p2y < y \<and> y \<le> max p1y p2y\<close> c ne show ?thesis
          by (simp add: point_in_polygon_step_def p1 p2)
      next
        case False
        with xm \<open>min p1y p2y < y \<and> y \<le> max p1y p2y\<close> c ne show ?thesis
          by (simp add: point_in_polygon_step_def p1 p2)
      qed
    qed
  qed
qed

lemma point_in_polygon_loop_crosses:
  "m \<le> length polygon \<Longrightarrow> k \<le> m \<Longrightarrow>
   point_in_polygon_loop x y polygon (map Suc [k..<m]) (polygon ! k, xinters, b) =
     Inr (b \<noteq> odd (length (filter
        (\<lambda>i. ray_crosses_closed y x (vertex (polygon ! i)) (vertex (polygon ! (Suc i mod length polygon))))
        [k..<m])))"
proof (induction "m - k" arbitrary: k xinters b)
  case 0
  then show ?case by simp
next
  case (Suc d)
  then have km: "k < m" and d: "d = m - Suc k" by simp_all
  then have u: "[k..<m] = k # [Suc k..<m]" by (simp add: upt_conv_Cons)
  obtain xinters' where s: "point_in_polygon_step x y polygon (Suc k) (polygon ! k, xinters, b) =
     Inr (polygon ! (Suc k mod length polygon), xinters',
          b \<noteq> ray_crosses_closed y x (vertex (polygon ! k)) (vertex (polygon ! (Suc k mod length polygon))))"
    using point_in_polygon_step_crosses by blast
  show ?case
  proof (cases "Suc k = m")
    case True
    then have e: "[Suc k..<m] = []" by simp
    show ?thesis by (simp add: u s e)
  next
    case False
    with km Suc.prems have lt: "Suc k < length polygon" by simp
    then have md: "Suc k mod length polygon = Suc k" by simp
    from km have "Suc k \<le> m" by simp
    from Suc.hyps(1) [OF d Suc.prems(1) this]
    show ?thesis by (auto simp add: u s md)
  qed
qed

lemma crossing_number_vertex:
  "crossing_number crosses (map vertex ring) =
   length (filter (\<lambda>i. crosses (vertex (ring ! i)) (vertex (ring ! (Suc i mod length ring)))) [0..<length ring])"
proof -
  have "filter (\<lambda>i. crosses (map vertex ring ! i) (map vertex ring ! (Suc i mod length ring))) [0..<length ring] =
        filter (\<lambda>i. crosses (vertex (ring ! i)) (vertex (ring ! (Suc i mod length ring)))) [0..<length ring]"
  proof (rule filter_cong)
    fix i assume "i \<in> set [0..<length ring]"
    then have i: "i < length ring" by simp
    then have "0 < length ring" by (cases ring) simp_all
    then have "Suc i mod length ring < length ring" by (rule mod_less_divisor)
    with i show "crosses (map vertex ring ! i) (map vertex ring ! (Suc i mod length ring)) =
       crosses (vertex (ring ! i)) (vertex (ring ! (Suc i mod length ring)))"
      by (simp only: nth_map)
  qed simp
  then show ?thesis by (simp add: crossing_number_def)
qed

lemma point_in_polygon_crossings:
  "point_in_polygon x y ring =
     (if ring = [] then Inl IndexError
      else Inr (even_odd_rule (ray_crosses_closed y x) (map vertex ring)))"
proof (cases ring)
  case Nil
  then show ?thesis by (simp add: point_in_polygon_def)
next
  case (Cons p ps)
  have u: "[1..<length ring + 1] = map Suc [0..<length ring]"
    by (simp add: map_Suc_upt del: upt_Suc)
  have z: "ring ! 0 = p" by (simp add: Cons)
  have "point_in_polygon x y ring = point_in_polygon_loop x y ring (map Suc [0..<length ring]) (ring ! 0, None, False)"
    unfolding point_in_polygon_def Let_def u z by (simp add: Cons)
  also have "\<dots> = Inr (False \<noteq> odd (length (filter
        (\<lambda>i. ray_crosses_closed y x (vertex (ring ! i)) (vertex (ring ! (Suc i mod length ring))))
        [0..<length ring])))"
    by (rule point_in_polygon_loop_crosses) simp_all
  finally have "point_in_polygon x y ring = Inr (even_odd_rule (ray_crosses_closed y x) (map vertex ring))"
    unfolding even_odd_rule_def crossing_number_vertex by simp
  then show ?thesis by (simp add: Cons)
qed

text \<open>
  The two readings of the rule agree on an edge unless one of its ends is on the parallel
  of the point or the point is on the edge; on the boundary of the square they differ:
  the corner \<open>(0, 0)\<close> is inside for the simulator and outside for the diagnostic script.
\<close>

lemma ray_crosses_closed_eq:
  "lat a \<noteq> plat \<Longrightarrow> lat b \<noteq> plat \<Longrightarrow> meridian_at a b plat \<noteq> plon \<Longrightarrow>
   ray_crosses_closed plat plon a b = ray_crosses plat plon a b"
  by (auto simp add: ray_crosses_closed_def ray_crosses_def)

lemma point_in_polygon_corner:
  "isPointInPolygon 0 0 [\<lparr>lat = 0, lon = 0\<rparr>, \<lparr>lat = 0, lon = 10\<rparr>, \<lparr>lat = 10, lon = 10\<rparr>, \<lparr>lat = 10, lon = 0\<rparr>] = True \<and>
   point_in_polygon 0 0 [(0, 0), (10, 0), (10, 10), (0, 10)] = Inr False"
  by (simp add: isPointInPolygon_square point_in_polygon_square)

text \<open>
  Claim C9. The point-in-polygon test is the even-odd ray-casting rule, for every point
  and every ring: \<open>isPointInPolygon\<close> of the simulator returns true exactly when the ray
  from the point towards increasing longitude crosses an odd number of the edges of the
  closed ring (a vertex on the parallel of the point counting as south of it, the
  crossing strictly east of the point); \<open>point_in_polygon\<close> of the diagnostic script
  raises on the empty ring and otherwise returns, without raising, whether that number is
  odd (a vertex on the parallel counting as north of it, the crossing east of the point or
  at it). For the ring \<open>[(0,0), (10,0), (10,10), (0,10)]\<close> of \<open>(lon, lat)\<close> pairs both
  report the point \<open>(5,5)\<close> inside and the point \<open>(15,15)\<close> outside.
\<close>

theorem point_in_polygon_even_odd:
  "isPointInPolygon plat plon polygon = even_odd_rule (ray_crosses plat plon) polygon \<and>
   point_in_polygon x y ring =
     (if ring = [] then Inl IndexError
      else Inr (even_odd_rule (ray_crosses_closed y x) (map vertex ring))) \<and>
   isPointInPolygon 5 5 [\<lparr>lat = 0, lon = 0\<rparr>, \<lparr>lat = 0, lon = 10\<rparr>, \<lparr>lat = 10, lon = 10\<rparr>, \<lparr>lat = 10, lon = 0\<rparr>] = True \<and>
   isPointInPolygon 15 15 [\<lparr>lat = 0, lon = 0\<rparr>, \<lparr>lat = 0, lon = 10\<rparr>, \<lparr>lat = 10, lon = 10\<rparr>, \<lparr>lat = 10, lon = 0\<rparr>] = False \<and>
   point_in_polygon 5 5 [(0, 0), (10, 0), (10, 10), (0, 10)] = Inr True \<and>
   point_in_polygon 15 15 [(0, 0), (10, 0), (10, 10), (0, 10)] = Inr False"
proof (intro conjI)
  show "isPointInPolygon plat plon polygon = even_odd_rule (ray_crosses plat plon) polygon"
    by (rule isPointInPolygon_crossings)
next
  show "point_in_polygon x y ring =
     (if ring = [] then Inl IndexError
      else Inr (even_odd_rule (ray_crosses_closed y x) (map vertex ring)))"
    by (rule point_in_polygon_crossings)
qed (simp_all add: isPointInPolygon_square point_in_polygon_square)

subsection \<open>Trajectory validation\<close>

lemma filter_step_drop: "out_of_range p \<Longrightarrow> filter_step p (acc, prev) = (acc, prev)"
  by (simp add: filter_step_def out_of_range_def)

lemma filter_step_mark:
  "\<not> out_of_range p \<Longrightarrow> exceeds_budget prev p \<Longrightarrow>
   filter_step p (acc, prev) = (acc @ [p\<lparr>isEndPoint := True\<rparr>], p\<lparr>isEndPoint := True\<rparr>)"
  by (simp add: filter_step_def out_of_range_def exceeds_budget_def Let_def)

lemma filter_step_keep:
  "\<not> out_of_range p \<Longrightarrow> \<not> exceeds_budget prev p \<Longrightarrow> filter_step p (acc, prev) = (acc @ [p], p)"
  by (simp add: filter_step_def out_of_range_def exceeds_budget_def Let_def)

lemma fold_filter_step: "fst (fold filter_step ps (acc, prev)) = acc @ walk prev ps"
proof (induction ps arbitrary: acc prev)
  case Nil
  show ?case by simp
next
  case (Cons p ps)
  show ?case
  proof (cases "out_of_range p")
    case True
    then show ?thesis by (simp add: filter_step_drop Cons.IH)
  next
    case False
    then show ?thesis
      by (cases "exceeds_budget prev p") (simp_all add: filter_step_mark filter_step_keep Cons.IH)
  qed
qed

lemma exceeds_budget_position:
  "position a = position a' \<Longrightarrow> position b = position b' \<Longrightarrow> exceeds_budget a b = exceeds_budget a' b'"
  by (simp add: exceeds_budget_def position_def)

lemma position_mark [simp]: "position (p\<lparr>isEndPoint := e\<rparr>) = position p"
  by (simp add: position_def)

lemma exceeds_budget_mark [simp]:
  "exceeds_budget (a\<lparr>isEndPoint := e\<rparr>) b = exceeds_budget a b"
  "exceeds_budget a (b\<lparr>isEndPoint := e\<rparr>) = exceeds_budget a b"
  by (simp_all add: exceeds_budget_def)

lemma walk_position: "map position (walk prev ps) = map position (filter (\<lambda>p. \<not> out_of_range p) ps)"
  by (induction ps arbitrary: prev) simp_all

lemma walk_length: "length (walk prev ps) = length (filter (\<lambda>p. \<not> out_of_range p) ps)"
  using walk_position [of prev ps] by (metis length_map)

lemma walk_flags:
  "i < length (walk prev ps) \<Longrightarrow>
   isEndPoint (walk prev ps ! i) =
     (isEndPoint (filter (\<lambda>p. \<not> out_of_range p) ps ! i) \<or>
      exceeds_budget ((prev # walk prev ps) ! i) (walk prev ps ! i))"
proof (induction ps arbitrary: prev i)
  case Nil
  then show ?case by simp
next
  case (Cons p ps)
  show ?case
  proof (cases "out_of_range p")
    case True
    with Cons show ?thesis by simp
  next
    case False
    show ?thesis
    proof (cases i)
      case 0
      with False show ?thesis by simp
    next
      case (Suc k)
      with False Cons.prems Cons.IH [of k "p\<lparr>isEndPoint := True\<rparr>"] Cons.IH [of k p]
      show ?thesis by (simp split: if_splits)
    qed
  qed
qed

lemma filterInvalid_walk:
  "2 \<le> length traj \<Longrightarrow> filterInvalidTrajectoryPoints traj = hd traj # walk (hd traj) (tl traj)"
  by (cases traj) (simp_all add: filterInvalidTrajectoryPoints_def fold_filter_step drop_Suc)

lemma filterInvalid_Cons:
  "filterInvalidTrajectoryPoints (first # rest) = first # walk first rest"
proof (cases "rest = []")
  case True
  then show ?thesis by (simp add: filterInvalidTrajectoryPoints_def)
next
  case False
  then have "\<not> length (first # rest) < 2" by (cases rest) simp_all
  then show ?thesis
    by (simp add: filterInvalidTrajectoryPoints_def fold_filter_step)
qed

lemma exceeds_budget_displacement:
  "exceeds_budget prev p \<Longrightarrow> spec_displacement prev p > 3 * (age p - age prev)"
proof -
  assume e: "exceeds_budget prev p"
  have "sqrt ((lat p - lat prev)\<^sup>2) \<le> spec_displacement prev p"
    unfolding spec_displacement_def by (rule real_sqrt_le_mono) simp
  then have a: "\<bar>lat p - lat prev\<bar> \<le> spec_displacement prev p" by simp
  have "sqrt ((lon p - lon prev)\<^sup>2) \<le> spec_displacement prev p"
    unfolding spec_displacement_def by (rule real_sqrt_le_mono) simp
  then have b: "\<bar>lon p - lon prev\<bar> \<le> spec_displacement prev p" by simp
  from e a b show ?thesis unfolding exceeds_budget_def by linarith
qed

text \<open>
  Claim C7, as stated, fails: the displacement of the specification is the Euclidean
  distance, and the code compares the latitude difference and the longitude difference
  with the budget one at a time. From (0, 0) at age 0 to (25, 25) at age 10 the
  displacement is the square root of 1250, more than the budget 3 * 10 = 30, and neither
  difference (25) exceeds 30: the later point is returned without the mark.
\<close>

theorem filterInvalidTrajectoryPoints_displacement_counterexample:
  "spec_displacement \<lparr>lat = 0, lon = 0, age = 0, isEndPoint = False\<rparr>
                     \<lparr>lat = 25, lon = 25, age = 10, isEndPoint = False\<rparr> > 3 * (10 - 0) \<and>
   filterInvalidTrajectoryPoints
     [\<lparr>lat = 0, lon = 0, age = 0, isEndPoint = False\<rparr>,
      \<lparr>lat = 25, lon = 25, age = 10, isEndPoint = False\<rparr>] =
     [\<lparr>lat = 0, lon = 0, age = 0, isEndPoint = False\<rparr>,
      \<lparr>lat = 25, lon = 25, age = 10, isEndPoint = False\<rparr>]"
proof
  have "(30::real)\<^sup>2 < 25\<^sup>2 + 25\<^sup>2" by simp
  then have "(30::real) < sqrt (25\<^sup>2 + 25\<^sup>2)" by (rule real_less_rsqrt)
  then show "spec_displacement \<lparr>lat = 0, lon = 0, age = 0, isEndPoint = False\<rparr>
                     \<lparr>lat = 25, lon = 25, age = 10, isEndPoint = False\<rparr> > 3 * (10 - 0)"
    by (simp add: spec_displacement_def)
next
  show "filterInvalidTrajectoryPoints
     [\<lparr>lat = 0, lon = 0, age = 0, isEndPoint = False\<rparr>,
      \<lparr>lat = 25, lon = 25, age = 10, isEndPoint = False\<rparr>] =
     [\<lparr>lat = 0, lon = 0, age = 0, isEndPoint = False\<rparr>,
      \<lparr>lat = 25, lon = 25, age = 10, isEndPoint = False\<rparr>]"
    by (simp add: filterInvalidTrajectoryPoints_def filter_step_def Let_def)
qed

text \<open>
  Claim C7, amended. \<open>filterInvalidTrajectoryPoints\<close> walks the points after the first in
  the order of the list. The first point is always kept as it is. A later point whose
  latitude or longitude is out of range is dropped: without their marks, the points
  returned are the first point followed by the later points that are in range, in their
  order. A point returned after the first is marked \<open>isEndPoint\<close> exactly when it was
  marked already or its jump from the point returned before it (the last valid point)
  exceeds the budget of 3 degrees per unit of age times the age gap, the jump being
  measured on the latitude and on the longitude separately (the latitudes differ by more
  than the budget, or the longitudes do), not as a Euclidean displacement; so a jump
  marks the later point of the pair and no point before it.
\<close>

theorem filterInvalidTrajectoryPoints_marks_jump:
  "filterInvalidTrajectoryPoints (first # rest) ! 0 = first \<and>
   map position (filterInvalidTrajectoryPoints (first # rest)) =
     map position (first # filter (\<lambda>p. \<not> out_of_range p) rest) \<and>
   (\<forall>i. 0 < i \<and> i < length (filterInvalidTrajectoryPoints (first # rest)) \<longrightarrow>
      isEndPoint (filterInvalidTrajectoryPoints (first # rest) ! i) =
        (isEndPoint ((first # filter (\<lambda>p. \<not> out_of_range p) rest) ! i) \<or>
         exceeds_budget (filterInvalidTrajectoryPoints (first # rest) ! (i - 1))
                        (filterInvalidTrajectoryPoints (first # rest) ! i)))"
proof (intro conjI allI impI)
  show "filterInvalidTrajectoryPoints (first # rest) ! 0 = first"
    by (simp add: filterInvalid_Cons)
next
  show "map position (filterInvalidTrajectoryPoints (first # rest)) =
     map position (first # filter (\<lambda>p. \<not> out_of_range p) rest)"
    by (simp add: filterInvalid_Cons walk_position)
next
  fix i
  assume i: "0 < i \<and> i < length (filterInvalidTrajectoryPoints (first # rest))"
  then obtain k where k: "i = Suc k" by (cases i) simp_all
  with i have "k < length (walk first rest)" by (simp add: filterInvalid_Cons)
  from walk_flags [OF this]
  show "isEndPoint (filterInvalidTrajectoryPoints (first # rest) ! i) =
        (isEndPoint ((first # filter (\<lambda>p. \<not> out_of_range p) rest) ! i) \<or>
         exceeds_budget (filterInvalidTrajectoryPoints (first # rest) ! (i - 1))
                        (filterInvalidTrajectoryPoints (first # rest) ! i))"
    by (simp add: filterInvalid_Cons k)
qed

theorem filterInvalidTrajectoryPoints_marks_jump_witness:
  "0 < (2::nat) \<and>
   2 < length (filterInvalidTrajectoryPoints
      [\<lparr>lat = -22.9, lon = -43.2, age = 0, isEndPoint = False\<rparr>,
       \<lparr>lat = -23, lon = -44, age = 10, isEndPoint = False\<rparr>,
       \<lparr>lat = 60, lon = -44, age = 20, isEndPoint = False\<rparr>,
       \<lparr>lat = 95, lon = -44, age = 30, isEndPoint = False\<rparr>,
       \<lparr>lat = 61, lon = -45, age = 40, isEndPoint = False\<rparr>]) \<and>
   filterInvalidTrajectoryPoints
      [\<lparr>lat = -22.9, lon = -43.2, age = 0, isEndPoint = False\<rparr>,
       \<lparr>lat = -23, lon = -44, age = 10, isEndPoint = False\<rparr>,
       \<lparr>lat = 60, lon = -44, age = 20, isEndPoint = False\<rparr>,
       \<lparr>lat = 95, lon = -44, age = 30, isEndPoint = False\<rparr>,
       \<lparr>lat = 61, lon = -45, age = 40, isEndPoint = False\<rparr>] =
      [\<lparr>lat = -22.9, lon = -43.2, age = 0, isEndPoint = False\<rparr>,
       \<lparr>lat = -23, lon = -44, age = 10, isEndPoint = False\<rparr>,
       \<lparr>lat = 60, lon = -44, age = 20, isEndPoint = True\<rparr>,
       \<lparr>lat = 61, lon = -45, age = 40, isEndPoint = False\<rparr>] \<and>
   isEndPoint (filterInvalidTrajectoryPoints
      [\<lparr>lat = -22.9, lon = -43.2, age = 0, isEndPoint = False\<rparr>,
       \<lparr>lat = -23, lon = -44, age = 10, isEndPoint = False\<rparr>,
       \<lparr>lat = 60, lon = -44, age = 20, isEndPoint = False\<rparr>,
       \<lparr>lat = 95, lon = -44, age = 30, isEndPoint = False\<rparr>,
       \<lparr>lat = 61, lon = -45, age = 40, isEndPoint = False\<rparr>] ! 2) =
     exceeds_budget \<lparr>lat = -23, lon = -44, age = 10, isEndPoint = False\<rparr>
                    \<lparr>lat = 60, lon = -44, age = 20, isEndPoint = True\<rparr>"
proof -
  let ?first = "\<lparr>lat = -22.9, lon = -43.2, age = 0::real, isEndPoint = False\<rparr>"
  let ?rest = "[\<lparr>lat = -23, lon = -44, age = 10::real, isEndPoint = False\<rparr>,
       \<lparr>lat = 60, lon = -44, age = 20, isEndPoint = False\<rparr>,
       \<lparr>lat = 95, lon = -44, age = 30, isEndPoint = False\<rparr>,
       \<lparr>lat = 61, lon = -45, age = 40, isEndPoint = False\<rparr>]"
  have ev: "filterInvalidTrajectoryPoints (?first # ?rest) =
      [?first,
       \<lparr>lat = -23, lon = -44, age = 10, isEndPoint = False\<rparr>,
       \<lparr>lat = 60, lon = -44, age = 20, isEndPoint = True\<rparr>,
       \<lparr>lat = 61, lon = -45, age = 40, isEndPoint = False\<rparr>]"
    by (simp add: filterInvalidTrajectoryPoints_def filter_step_def Let_def)
  have r: "0 < (2::nat) \<and> 2 < length (filterInvalidTrajectoryPoints (?first # ?rest))"
    unfolding ev by simp
  note mark = filterInvalidTrajectoryPoints_marks_jump
    [of ?first ?rest, THEN conjunct2, THEN conjunct2, rule_format, of 2, OF r]
  have eq: "isEndPoint (filterInvalidTrajectoryPoints (?first # ?rest) ! 2) =
     exceeds_budget \<lparr>lat = -23, lon = -44, age = 10, isEndPoint = False\<rparr>
                    \<lparr>lat = 60, lon = -44, age = 20, isEndPoint = True\<rparr>"
    using mark unfolding ev by (simp add: out_of_range_def)
  from r ev eq show ?thesis by blast
qed

subsection \<open>Trajectory generation\<close>






lemma age_age_promise [simp]: "age (age_promise fetch modelName anch plat plon reconLat reconLon a) = a"
  by (simp add: age_promise_def split: reply.splits option.splits list.splits)








lemma age_point_at_age [simp]: "age (point_at_age fetch modelName plat plon a) = a"
  by (simp add: point_at_age_def Let_def)























subsection \<open>The proxy and the disk cache\<close>


lemma do_GET_disk_hit:
  "memory st (gplates_url p q) = None \<Longrightarrow>
   disk st (get_cache_path (gplates_url p q)) = Some (Text (c # cs)) \<Longrightarrow>
   do_GET org st p q =
     (Json200 (c # cs), st\<lparr>memory := (memory st)(gplates_url p q \<mapsto> c # cs)\<rparr>, 0)"
  by (simp add: do_GET_def load_from_disk_cache_def Let_def)




subsection \<open>What reaches the cache directory\<close>

text \<open>
  The downloaders write a payload only after \<open>json.loads\<close> has accepted it, and leave
  the cache directory as it is when the request fails or the payload does not parse.
\<close>

lemma download_and_cache_malformed:
  "org url = Payload data \<Longrightarrow> json_loads data = Some e \<Longrightarrow>
   snd (download_and_cache json_loads org d url) = d"
  by (simp add: download_and_cache_def Let_def)

lemma download_and_cache_failed:
  "org url = Failed e \<Longrightarrow> snd (download_and_cache json_loads org d url) = d"
  by (simp add: download_and_cache_def Let_def)

lemma download_and_cache_writes_valid_only:
  "snd (download_and_cache json_loads org d url) \<noteq> d \<Longrightarrow>
   \<exists>data. org url = Payload data \<and> json_loads data = None \<and>
      snd (download_and_cache json_loads org d url) = d(get_cache_path url \<mapsto> Text data)"
  by (auto simp: download_and_cache_def Let_def split: if_splits http_reply.splits option.splits)

text \<open>
  Claim C3. A payload that does not parse as JSON must never be written to the cache
  directory. The proxy departs from it: on a cache miss \<open>do_GET\<close> stores what the origin
  returned without parsing it. Evaluated on an HTML error page that the origin returns
  for a coastline request, with both tiers empty: the page is sent back, and it is
  written to the cache file of the URL and to the memory tier.
\<close>

theorem do_GET_caches_malformed_payload:
  "do_GET (\<lambda>u. Payload ''<html>502 Bad Gateway</html>'') \<lparr>memory = Map.empty, disk = Map.empty\<rparr>
      ''/reconstruct/coastlines/'' ''time=50&model=MULLER2022'' =
     (Json200 ''<html>502 Bad Gateway</html>'',
      \<lparr>memory = [gplates_url ''/reconstruct/coastlines/'' ''time=50&model=MULLER2022''
                   \<mapsto> ''<html>502 Bad Gateway</html>''],
       disk = [get_cache_path (gplates_url ''/reconstruct/coastlines/'' ''time=50&model=MULLER2022'')
                 \<mapsto> Text ''<html>502 Bad Gateway</html>'']\<rparr>,
      1)"
  by (simp add: do_GET_def load_from_disk_cache_def save_to_disk_cache_def Let_def)

subsection \<open>Cache keys\<close>

text \<open>
  The UTF-8 bytes of a URL: the ASCII characters as they are, the others on two bytes
  (\<open>U+00E9\<close> as \<open>c3 a9\<close>).
\<close>

lemma encode_ascii: "encode ''time=50'' = [0x74, 0x69, 0x6d, 0x65, 0x3d, 0x35, 0x30]"
  by (simp add: encode_def utf8_def)

lemma encode_latin1: "encode [CHR 0xE9] = [0xC3, 0xA9]"
  by (simp add: encode_def utf8_def)

text \<open>
  The MD5 of the empty text and of \<open>abc\<close> (the test suite of RFC 1321), and of two
  request URLs for the same query, the coastlines of the model MULLER2022 at the age 50,
  once with the age written \<open>50\<close> and once \<open>50.0\<close>: evaluated step by step (padding,
  message words, the rounds sixteen at a time, the blocks, the digest).
\<close>

lemma upt_0_8: "[0..<8] = [0, 1, 2, 3, 4, 5, 6, 7]"
  by (simp add: upt_rec)

lemma upt_0_64:
  "[0..<64] = [0, 1, 2, 3, 4, 5, 6, 7, 8, 9, 10, 11, 12, 13, 14, 15] @
     [16, 17, 18, 19, 20, 21, 22, 23, 24, 25, 26, 27, 28, 29, 30, 31] @
     [32, 33, 34, 35, 36, 37, 38, 39, 40, 41, 42, 43, 44, 45, 46, 47] @
     [48, 49, 50, 51, 52, 53, 54, 55, 56, 57, 58, 59, 60, 61, 62, 63]"
  by (simp add: upt_rec)

lemma md5_words_16:
  "md5_words 16 bs =
     md5_words (Suc (Suc (Suc (Suc (Suc (Suc (Suc (Suc (Suc (Suc (Suc (Suc (Suc (Suc (Suc (Suc 0)))))))))))))))) bs"
  by (simp add: eval_nat_numeral)

lemma replicate_numeral: "replicate (numeral k) x = x # replicate (pred_numeral k) x"
  by (simp add: numeral_eq_Suc)

lemma md5_blocks_two:
  assumes "length b1 = 64" and "length b2 = 64"
    and "md5_block st b1 = st1" and "md5_block st1 b2 = st2"
  shows "md5_blocks (length (b1 @ b2) div 64) st (b1 @ b2) = st2"
proof -
  have "length (b1 @ b2) div 64 = Suc (Suc 0)" using assms(1,2) by simp
  then show ?thesis using assms by (simp del: One_nat_def add: numeral_2_eq_2)
qed

lemma md5_blocks_one:
  assumes "length b = 64" and "md5_block st b = st1"
  shows "md5_blocks (length b div 64) st b = st1"
proof -
  have "md5_blocks (Suc 0) st b = st1" using assms by simp
  then show ?thesis using assms(1) by simp
qed

lemma md5_empty_pad:
  "md5_pad (encode []) =
     [0x80, 0x0, 0x0, 0x0, 0x0, 0x0, 0x0, 0x0, 0x0, 0x0, 0x0, 0x0, 0x0, 0x0, 0x0, 0x0,
      0x0, 0x0, 0x0, 0x0, 0x0, 0x0, 0x0, 0x0, 0x0, 0x0, 0x0, 0x0, 0x0, 0x0, 0x0, 0x0,
      0x0, 0x0, 0x0, 0x0, 0x0, 0x0, 0x0, 0x0, 0x0, 0x0, 0x0, 0x0, 0x0, 0x0, 0x0, 0x0,
      0x0, 0x0, 0x0, 0x0, 0x0, 0x0, 0x0, 0x0, 0x0, 0x0, 0x0, 0x0, 0x0, 0x0, 0x0, 0x0]"
  by (simp add: encode_def utf8_def md5_pad_def upt_0_8 replicate_numeral)

lemma md5_empty_length_0:
  "length
     [0x80, 0x0, 0x0, 0x0, 0x0, 0x0, 0x0, 0x0, 0x0, 0x0, 0x0, 0x0, 0x0, 0x0, 0x0, 0x0,
      0x0, 0x0, 0x0, 0x0, 0x0, 0x0, 0x0, 0x0, 0x0, 0x0, 0x0, 0x0, 0x0, 0x0, 0x0, 0x0,
      0x0, 0x0, 0x0, 0x0, 0x0, 0x0, 0x0, 0x0, 0x0, 0x0, 0x0, 0x0, 0x0, 0x0, 0x0, 0x0,
      0x0, 0x0, 0x0, 0x0, 0x0, 0x0, 0x0, 0x0, 0x0, 0x0, 0x0, 0x0, 0x0, 0x0, 0x0, 0x0] = 64"
  by simp

lemma md5_empty_words_0:
  "md5_words 16
     [0x80, 0x0, 0x0, 0x0, 0x0, 0x0, 0x0, 0x0, 0x0, 0x0, 0x0, 0x0, 0x0, 0x0, 0x0, 0x0,
      0x0, 0x0, 0x0, 0x0, 0x0, 0x0, 0x0, 0x0, 0x0, 0x0, 0x0, 0x0, 0x0, 0x0, 0x0, 0x0,
      0x0, 0x0, 0x0, 0x0, 0x0, 0x0, 0x0, 0x0, 0x0, 0x0, 0x0, 0x0, 0x0, 0x0, 0x0, 0x0,
      0x0, 0x0, 0x0, 0x0, 0x0, 0x0, 0x0, 0x0, 0x0, 0x0, 0x0, 0x0, 0x0, 0x0, 0x0, 0x0] =
     [0x80, 0x0, 0x0, 0x0, 0x0, 0x0, 0x0, 0x0,
      0x0, 0x0, 0x0, 0x0, 0x0, 0x0, 0x0, 0x0]"
  by (simp add: md5_words_16)

lemma md5_empty_rounds_0_0:
  "fold (md5_round
     [0x80, 0x0, 0x0, 0x0, 0x0, 0x0, 0x0, 0x0,
      0x0, 0x0, 0x0, 0x0, 0x0, 0x0, 0x0, 0x0])
     [0, 1, 2, 3, 4, 5, 6, 7, 8, 9, 10, 11, 12, 13, 14, 15]
     (0x67452301, 0xefcdab89, 0x98badcfe, 0x10325476) =
     (0xf56c7cf1, 0xd6819c6a, 0x5aa53f75, 0x374943a7)"
  by (simp add: md5_round_def leftrotate_def md5_K_def md5_s_def Let_def)

lemma md5_empty_rounds_0_16:
  "fold (md5_round
     [0x80, 0x0, 0x0, 0x0, 0x0, 0x0, 0x0, 0x0,
      0x0, 0x0, 0x0, 0x0, 0x0, 0x0, 0x0, 0x0])
     [16, 17, 18, 19, 20, 21, 22, 23, 24, 25, 26, 27, 28, 29, 30, 31]
     (0xf56c7cf1, 0xd6819c6a, 0x5aa53f75, 0x374943a7) =
     (0x13707036, 0xa2205f1f, 0x1c31c384, 0xae7813db)"
  by (simp add: md5_round_def leftrotate_def md5_K_def md5_s_def Let_def)

lemma md5_empty_rounds_0_32:
  "fold (md5_round
     [0x80, 0x0, 0x0, 0x0, 0x0, 0x0, 0x0, 0x0,
      0x0, 0x0, 0x0, 0x0, 0x0, 0x0, 0x0, 0x0])
     [32, 33, 34, 35, 36, 37, 38, 39, 40, 41, 42, 43, 44, 45, 46, 47]
     (0x13707036, 0xa2205f1f, 0x1c31c384, 0xae7813db) =
     (0x3f55edfd, 0xca7d2dbd, 0x68d84ea2, 0x22a31f54)"
  by (simp add: md5_round_def leftrotate_def md5_K_def md5_s_def Let_def)

lemma md5_empty_rounds_0_48:
  "fold (md5_round
     [0x80, 0x0, 0x0, 0x0, 0x0, 0x0, 0x0, 0x0,
      0x0, 0x0, 0x0, 0x0, 0x0, 0x0, 0x0, 0x0])
     [48, 49, 50, 51, 52, 53, 54, 55, 56, 57, 58, 59, 60, 61, 62, 63]
     (0x3f55edfd, 0xca7d2dbd, 0x68d84ea2, 0x22a31f54) =
     (0x7246fad3, 0x14e45506, 0xff4ea3eb, 0x6e10a476)"
  by (simp add: md5_round_def leftrotate_def md5_K_def md5_s_def Let_def)

lemma md5_empty_block_0:
  "md5_block (0x67452301, 0xefcdab89, 0x98badcfe, 0x10325476)
     [0x80, 0x0, 0x0, 0x0, 0x0, 0x0, 0x0, 0x0, 0x0, 0x0, 0x0, 0x0, 0x0, 0x0, 0x0, 0x0,
      0x0, 0x0, 0x0, 0x0, 0x0, 0x0, 0x0, 0x0, 0x0, 0x0, 0x0, 0x0, 0x0, 0x0, 0x0, 0x0,
      0x0, 0x0, 0x0, 0x0, 0x0, 0x0, 0x0, 0x0, 0x0, 0x0, 0x0, 0x0, 0x0, 0x0, 0x0, 0x0,
      0x0, 0x0, 0x0, 0x0, 0x0, 0x0, 0x0, 0x0, 0x0, 0x0, 0x0, 0x0, 0x0, 0x0, 0x0, 0x0] =
     (0xd98c1dd4, 0x4b2008f, 0x980980e9, 0x7e42f8ec)"
  unfolding md5_block_def md5_empty_words_0 upt_0_64
  by (simp only: prod.case fold_append o_apply md5_empty_rounds_0_0 md5_empty_rounds_0_16 md5_empty_rounds_0_32 md5_empty_rounds_0_48) simp

lemma md5_empty_digest:
  "md5_digest (encode []) =
     [0xd4, 0x1d, 0x8c, 0xd9, 0x8f, 0x0, 0xb2, 0x4, 0xe9, 0x80, 0x9, 0x98, 0xec, 0xf8, 0x42, 0x7e]"
  unfolding md5_digest_def Let_def md5_empty_pad
    md5_blocks_one [OF md5_empty_length_0 md5_empty_block_0]
  by (simp add: word_bytes_def upt_0_4)

lemma md5_empty_hex:
  "md5_hex [] = ''d41d8cd98f00b204e9800998ecf8427e''"
  unfolding md5_hex_def md5_empty_digest
  by (simp add: hexdigest_def hex_digit_def)

lemma md5_abc_pad:
  "md5_pad (encode ''abc'') =
     [0x61, 0x62, 0x63, 0x80, 0x0, 0x0, 0x0, 0x0, 0x0, 0x0, 0x0, 0x0, 0x0, 0x0, 0x0, 0x0,
      0x0, 0x0, 0x0, 0x0, 0x0, 0x0, 0x0, 0x0, 0x0, 0x0, 0x0, 0x0, 0x0, 0x0, 0x0, 0x0,
      0x0, 0x0, 0x0, 0x0, 0x0, 0x0, 0x0, 0x0, 0x0, 0x0, 0x0, 0x0, 0x0, 0x0, 0x0, 0x0,
      0x0, 0x0, 0x0, 0x0, 0x0, 0x0, 0x0, 0x0, 0x18, 0x0, 0x0, 0x0, 0x0, 0x0, 0x0, 0x0]"
  by (simp add: encode_def utf8_def md5_pad_def upt_0_8 replicate_numeral)

lemma md5_abc_length_0:
  "length
     [0x61, 0x62, 0x63, 0x80, 0x0, 0x0, 0x0, 0x0, 0x0, 0x0, 0x0, 0x0, 0x0, 0x0, 0x0, 0x0,
      0x0, 0x0, 0x0, 0x0, 0x0, 0x0, 0x0, 0x0, 0x0, 0x0, 0x0, 0x0, 0x0, 0x0, 0x0, 0x0,
      0x0, 0x0, 0x0, 0x0, 0x0, 0x0, 0x0, 0x0, 0x0, 0x0, 0x0, 0x0, 0x0, 0x0, 0x0, 0x0,
      0x0, 0x0, 0x0, 0x0, 0x0, 0x0, 0x0, 0x0, 0x18, 0x0, 0x0, 0x0, 0x0, 0x0, 0x0, 0x0] = 64"
  by simp

lemma md5_abc_words_0:
  "md5_words 16
     [0x61, 0x62, 0x63, 0x80, 0x0, 0x0, 0x0, 0x0, 0x0, 0x0, 0x0, 0x0, 0x0, 0x0, 0x0, 0x0,
      0x0, 0x0, 0x0, 0x0, 0x0, 0x0, 0x0, 0x0, 0x0, 0x0, 0x0, 0x0, 0x0, 0x0, 0x0, 0x0,
      0x0, 0x0, 0x0, 0x0, 0x0, 0x0, 0x0, 0x0, 0x0, 0x0, 0x0, 0x0, 0x0, 0x0, 0x0, 0x0,
      0x0, 0x0, 0x0, 0x0, 0x0, 0x0, 0x0, 0x0, 0x18, 0x0, 0x0, 0x0, 0x0, 0x0, 0x0, 0x0] =
     [0x80636261, 0x0, 0x0, 0x0, 0x0, 0x0, 0x0, 0x0,
      0x0, 0x0, 0x0, 0x0, 0x0, 0x0, 0x18, 0x0]"
  by (simp add: md5_words_16)

lemma md5_abc_rounds_0_0:
  "fold (md5_round
     [0x80636261, 0x0, 0x0, 0x0, 0x0, 0x0, 0x0, 0x0,
      0x0, 0x0, 0x0, 0x0, 0x0, 0x0, 0x18, 0x0])
     [0, 1, 2, 3, 4, 5, 6, 7, 8, 9, 10, 11, 12, 13, 14, 15]
     (0x67452301, 0xefcdab89, 0x98badcfe, 0x10325476) =
     (0xdda9b9a6, 0x72aff2e0, 0xe396856b, 0xa1051895)"
  by (simp add: md5_round_def leftrotate_def md5_K_def md5_s_def Let_def)

lemma md5_abc_rounds_0_16:
  "fold (md5_round
     [0x80636261, 0x0, 0x0, 0x0, 0x0, 0x0, 0x0, 0x0,
      0x0, 0x0, 0x0, 0x0, 0x0, 0x0, 0x18, 0x0])
     [16, 17, 18, 19, 20, 21, 22, 23, 24, 25, 26, 27, 28, 29, 30, 31]
     (0xdda9b9a6, 0x72aff2e0, 0xe396856b, 0xa1051895) =
     (0x790a77fb, 0x726342d3, 0xa62884aa, 0x9f47e4f8)"
  by (simp add: md5_round_def leftrotate_def md5_K_def md5_s_def Let_def)

lemma md5_abc_rounds_0_32:
  "fold (md5_round
     [0x80636261, 0x0, 0x0, 0x0, 0x0, 0x0, 0x0, 0x0,
      0x0, 0x0, 0x0, 0x0, 0x0, 0x0, 0x18, 0x0])
     [32, 33, 34, 35, 36, 37, 38, 39, 40, 41, 42, 43, 44, 45, 46, 47]
     (0x790a77fb, 0x726342d3, 0xa62884aa, 0x9f47e4f8) =
     (0x7f2e507b, 0x7beb9700, 0x8fae6399, 0x99d9679d)"
  by (simp add: md5_round_def leftrotate_def md5_K_def md5_s_def Let_def)

lemma md5_abc_rounds_0_48:
  "fold (md5_round
     [0x80636261, 0x0, 0x0, 0x0, 0x0, 0x0, 0x0, 0x0,
      0x0, 0x0, 0x0, 0x0, 0x0, 0x0, 0x18, 0x0])
     [48, 49, 50, 51, 52, 53, 54, 55, 56, 57, 58, 59, 60, 61, 62, 63]
     (0x7f2e507b, 0x7beb9700, 0x8fae6399, 0x99d9679d) =
     (0x310ade8f, 0xc08226b3, 0xe484b9d8, 0x624d8cb2)"
  by (simp add: md5_round_def leftrotate_def md5_K_def md5_s_def Let_def)

lemma md5_abc_block_0:
  "md5_block (0x67452301, 0xefcdab89, 0x98badcfe, 0x10325476)
     [0x61, 0x62, 0x63, 0x80, 0x0, 0x0, 0x0, 0x0, 0x0, 0x0, 0x0, 0x0, 0x0, 0x0, 0x0, 0x0,
      0x0, 0x0, 0x0, 0x0, 0x0, 0x0, 0x0, 0x0, 0x0, 0x0, 0x0, 0x0, 0x0, 0x0, 0x0, 0x0,
      0x0, 0x0, 0x0, 0x0, 0x0, 0x0, 0x0, 0x0, 0x0, 0x0, 0x0, 0x0, 0x0, 0x0, 0x0, 0x0,
      0x0, 0x0, 0x0, 0x0, 0x0, 0x0, 0x0, 0x0, 0x18, 0x0, 0x0, 0x0, 0x0, 0x0, 0x0, 0x0] =
     (0x98500190, 0xb04fd23c, 0x7d3f96d6, 0x727fe128)"
  unfolding md5_block_def md5_abc_words_0 upt_0_64
  by (simp only: prod.case fold_append o_apply md5_abc_rounds_0_0 md5_abc_rounds_0_16 md5_abc_rounds_0_32 md5_abc_rounds_0_48) simp

lemma md5_abc_digest:
  "md5_digest (encode ''abc'') =
     [0x90, 0x1, 0x50, 0x98, 0x3c, 0xd2, 0x4f, 0xb0, 0xd6, 0x96, 0x3f, 0x7d, 0x28, 0xe1, 0x7f, 0x72]"
  unfolding md5_digest_def Let_def md5_abc_pad
    md5_blocks_one [OF md5_abc_length_0 md5_abc_block_0]
  by (simp add: word_bytes_def upt_0_4)

lemma md5_abc_hex:
  "md5_hex ''abc'' = ''900150983cd24fb0d6963f7d28e17f72''"
  unfolding md5_hex_def md5_abc_digest
  by (simp add: hexdigest_def hex_digit_def)

lemma md5_plain_pad:
  "md5_pad (encode ''https://gws.gplates.org/reconstruct/coastlines/?time=50&model=MULLER2022'') =
     [0x68, 0x74, 0x74, 0x70, 0x73, 0x3a, 0x2f, 0x2f, 0x67, 0x77, 0x73, 0x2e, 0x67, 0x70, 0x6c, 0x61,
      0x74, 0x65, 0x73, 0x2e, 0x6f, 0x72, 0x67, 0x2f, 0x72, 0x65, 0x63, 0x6f, 0x6e, 0x73, 0x74, 0x72,
      0x75, 0x63, 0x74, 0x2f, 0x63, 0x6f, 0x61, 0x73, 0x74, 0x6c, 0x69, 0x6e, 0x65, 0x73, 0x2f, 0x3f,
      0x74, 0x69, 0x6d, 0x65, 0x3d, 0x35, 0x30, 0x26, 0x6d, 0x6f, 0x64, 0x65, 0x6c, 0x3d, 0x4d, 0x55] @
     [0x4c, 0x4c, 0x45, 0x52, 0x32, 0x30, 0x32, 0x32, 0x80, 0x0, 0x0, 0x0, 0x0, 0x0, 0x0, 0x0,
      0x0, 0x0, 0x0, 0x0, 0x0, 0x0, 0x0, 0x0, 0x0, 0x0, 0x0, 0x0, 0x0, 0x0, 0x0, 0x0,
      0x0, 0x0, 0x0, 0x0, 0x0, 0x0, 0x0, 0x0, 0x0, 0x0, 0x0, 0x0, 0x0, 0x0, 0x0, 0x0,
      0x0, 0x0, 0x0, 0x0, 0x0, 0x0, 0x0, 0x0, 0x40, 0x2, 0x0, 0x0, 0x0, 0x0, 0x0, 0x0]"
  by (simp add: encode_def utf8_def md5_pad_def upt_0_8 replicate_numeral)

lemma md5_plain_length_0:
  "length
     [0x68, 0x74, 0x74, 0x70, 0x73, 0x3a, 0x2f, 0x2f, 0x67, 0x77, 0x73, 0x2e, 0x67, 0x70, 0x6c, 0x61,
      0x74, 0x65, 0x73, 0x2e, 0x6f, 0x72, 0x67, 0x2f, 0x72, 0x65, 0x63, 0x6f, 0x6e, 0x73, 0x74, 0x72,
      0x75, 0x63, 0x74, 0x2f, 0x63, 0x6f, 0x61, 0x73, 0x74, 0x6c, 0x69, 0x6e, 0x65, 0x73, 0x2f, 0x3f,
      0x74, 0x69, 0x6d, 0x65, 0x3d, 0x35, 0x30, 0x26, 0x6d, 0x6f, 0x64, 0x65, 0x6c, 0x3d, 0x4d, 0x55] = 64"
  by simp

lemma md5_plain_words_0:
  "md5_words 16
     [0x68, 0x74, 0x74, 0x70, 0x73, 0x3a, 0x2f, 0x2f, 0x67, 0x77, 0x73, 0x2e, 0x67, 0x70, 0x6c, 0x61,
      0x74, 0x65, 0x73, 0x2e, 0x6f, 0x72, 0x67, 0x2f, 0x72, 0x65, 0x63, 0x6f, 0x6e, 0x73, 0x74, 0x72,
      0x75, 0x63, 0x74, 0x2f, 0x63, 0x6f, 0x61, 0x73, 0x74, 0x6c, 0x69, 0x6e, 0x65, 0x73, 0x2f, 0x3f,
      0x74, 0x69, 0x6d, 0x65, 0x3d, 0x35, 0x30, 0x26, 0x6d, 0x6f, 0x64, 0x65, 0x6c, 0x3d, 0x4d, 0x55] =
     [0x70747468, 0x2f2f3a73, 0x2e737767, 0x616c7067, 0x2e736574, 0x2f67726f, 0x6f636572, 0x7274736e,
      0x2f746375, 0x73616f63, 0x6e696c74, 0x3f2f7365, 0x656d6974, 0x2630353d, 0x65646f6d, 0x554d3d6c]"
  by (simp add: md5_words_16)

lemma md5_plain_rounds_0_0:
  "fold (md5_round
     [0x70747468, 0x2f2f3a73, 0x2e737767, 0x616c7067, 0x2e736574, 0x2f67726f, 0x6f636572, 0x7274736e,
      0x2f746375, 0x73616f63, 0x6e696c74, 0x3f2f7365, 0x656d6974, 0x2630353d, 0x65646f6d, 0x554d3d6c])
     [0, 1, 2, 3, 4, 5, 6, 7, 8, 9, 10, 11, 12, 13, 14, 15]
     (0x67452301, 0xefcdab89, 0x98badcfe, 0x10325476) =
     (0xc7c57bbd, 0x4d00fca2, 0x616f523e, 0x41fff91a)"
  by (simp add: md5_round_def leftrotate_def md5_K_def md5_s_def Let_def)

lemma md5_plain_rounds_0_16:
  "fold (md5_round
     [0x70747468, 0x2f2f3a73, 0x2e737767, 0x616c7067, 0x2e736574, 0x2f67726f, 0x6f636572, 0x7274736e,
      0x2f746375, 0x73616f63, 0x6e696c74, 0x3f2f7365, 0x656d6974, 0x2630353d, 0x65646f6d, 0x554d3d6c])
     [16, 17, 18, 19, 20, 21, 22, 23, 24, 25, 26, 27, 28, 29, 30, 31]
     (0xc7c57bbd, 0x4d00fca2, 0x616f523e, 0x41fff91a) =
     (0x127ee2e7, 0x53323398, 0xf9dff3dd, 0xb69ffe12)"
  by (simp add: md5_round_def leftrotate_def md5_K_def md5_s_def Let_def)

lemma md5_plain_rounds_0_32:
  "fold (md5_round
     [0x70747468, 0x2f2f3a73, 0x2e737767, 0x616c7067, 0x2e736574, 0x2f67726f, 0x6f636572, 0x7274736e,
      0x2f746375, 0x73616f63, 0x6e696c74, 0x3f2f7365, 0x656d6974, 0x2630353d, 0x65646f6d, 0x554d3d6c])
     [32, 33, 34, 35, 36, 37, 38, 39, 40, 41, 42, 43, 44, 45, 46, 47]
     (0x127ee2e7, 0x53323398, 0xf9dff3dd, 0xb69ffe12) =
     (0xa17ba904, 0xd2b267f4, 0xd85f60f5, 0xc1bc4737)"
  by (simp add: md5_round_def leftrotate_def md5_K_def md5_s_def Let_def)

lemma md5_plain_rounds_0_48:
  "fold (md5_round
     [0x70747468, 0x2f2f3a73, 0x2e737767, 0x616c7067, 0x2e736574, 0x2f67726f, 0x6f636572, 0x7274736e,
      0x2f746375, 0x73616f63, 0x6e696c74, 0x3f2f7365, 0x656d6974, 0x2630353d, 0x65646f6d, 0x554d3d6c])
     [48, 49, 50, 51, 52, 53, 54, 55, 56, 57, 58, 59, 60, 61, 62, 63]
     (0xa17ba904, 0xd2b267f4, 0xd85f60f5, 0xc1bc4737) =
     (0x7a7d4d02, 0xa281d33c, 0x14c8111d, 0x411ade5e)"
  by (simp add: md5_round_def leftrotate_def md5_K_def md5_s_def Let_def)

lemma md5_plain_block_0:
  "md5_block (0x67452301, 0xefcdab89, 0x98badcfe, 0x10325476)
     [0x68, 0x74, 0x74, 0x70, 0x73, 0x3a, 0x2f, 0x2f, 0x67, 0x77, 0x73, 0x2e, 0x67, 0x70, 0x6c, 0x61,
      0x74, 0x65, 0x73, 0x2e, 0x6f, 0x72, 0x67, 0x2f, 0x72, 0x65, 0x63, 0x6f, 0x6e, 0x73, 0x74, 0x72,
      0x75, 0x63, 0x74, 0x2f, 0x63, 0x6f, 0x61, 0x73, 0x74, 0x6c, 0x69, 0x6e, 0x65, 0x73, 0x2f, 0x3f,
      0x74, 0x69, 0x6d, 0x65, 0x3d, 0x35, 0x30, 0x26, 0x6d, 0x6f, 0x64, 0x65, 0x6c, 0x3d, 0x4d, 0x55] =
     (0xe1c27003, 0x924f7ec5, 0xad82ee1b, 0x514d32d4)"
  unfolding md5_block_def md5_plain_words_0 upt_0_64
  by (simp only: prod.case fold_append o_apply md5_plain_rounds_0_0 md5_plain_rounds_0_16 md5_plain_rounds_0_32 md5_plain_rounds_0_48) simp

lemma md5_plain_length_1:
  "length
     [0x4c, 0x4c, 0x45, 0x52, 0x32, 0x30, 0x32, 0x32, 0x80, 0x0, 0x0, 0x0, 0x0, 0x0, 0x0, 0x0,
      0x0, 0x0, 0x0, 0x0, 0x0, 0x0, 0x0, 0x0, 0x0, 0x0, 0x0, 0x0, 0x0, 0x0, 0x0, 0x0,
      0x0, 0x0, 0x0, 0x0, 0x0, 0x0, 0x0, 0x0, 0x0, 0x0, 0x0, 0x0, 0x0, 0x0, 0x0, 0x0,
      0x0, 0x0, 0x0, 0x0, 0x0, 0x0, 0x0, 0x0, 0x40, 0x2, 0x0, 0x0, 0x0, 0x0, 0x0, 0x0] = 64"
  by simp

lemma md5_plain_words_1:
  "md5_words 16
     [0x4c, 0x4c, 0x45, 0x52, 0x32, 0x30, 0x32, 0x32, 0x80, 0x0, 0x0, 0x0, 0x0, 0x0, 0x0, 0x0,
      0x0, 0x0, 0x0, 0x0, 0x0, 0x0, 0x0, 0x0, 0x0, 0x0, 0x0, 0x0, 0x0, 0x0, 0x0, 0x0,
      0x0, 0x0, 0x0, 0x0, 0x0, 0x0, 0x0, 0x0, 0x0, 0x0, 0x0, 0x0, 0x0, 0x0, 0x0, 0x0,
      0x0, 0x0, 0x0, 0x0, 0x0, 0x0, 0x0, 0x0, 0x40, 0x2, 0x0, 0x0, 0x0, 0x0, 0x0, 0x0] =
     [0x52454c4c, 0x32323032, 0x80, 0x0, 0x0, 0x0, 0x0, 0x0,
      0x0, 0x0, 0x0, 0x0, 0x0, 0x0, 0x240, 0x0]"
  by (simp add: md5_words_16)

lemma md5_plain_rounds_1_0:
  "fold (md5_round
     [0x52454c4c, 0x32323032, 0x80, 0x0, 0x0, 0x0, 0x0, 0x0,
      0x0, 0x0, 0x0, 0x0, 0x0, 0x0, 0x240, 0x0])
     [0, 1, 2, 3, 4, 5, 6, 7, 8, 9, 10, 11, 12, 13, 14, 15]
     (0xe1c27003, 0x924f7ec5, 0xad82ee1b, 0x514d32d4) =
     (0xbfccc856, 0xe4507f9b, 0x98721ce3, 0x181172c5)"
  by (simp add: md5_round_def leftrotate_def md5_K_def md5_s_def Let_def)

lemma md5_plain_rounds_1_16:
  "fold (md5_round
     [0x52454c4c, 0x32323032, 0x80, 0x0, 0x0, 0x0, 0x0, 0x0,
      0x0, 0x0, 0x0, 0x0, 0x0, 0x0, 0x240, 0x0])
     [16, 17, 18, 19, 20, 21, 22, 23, 24, 25, 26, 27, 28, 29, 30, 31]
     (0xbfccc856, 0xe4507f9b, 0x98721ce3, 0x181172c5) =
     (0x5a051b7e, 0x659ac88c, 0x10fd33ba, 0xf07bb84)"
  by (simp add: md5_round_def leftrotate_def md5_K_def md5_s_def Let_def)

lemma md5_plain_rounds_1_32:
  "fold (md5_round
     [0x52454c4c, 0x32323032, 0x80, 0x0, 0x0, 0x0, 0x0, 0x0,
      0x0, 0x0, 0x0, 0x0, 0x0, 0x0, 0x240, 0x0])
     [32, 33, 34, 35, 36, 37, 38, 39, 40, 41, 42, 43, 44, 45, 46, 47]
     (0x5a051b7e, 0x659ac88c, 0x10fd33ba, 0xf07bb84) =
     (0x442fb7c6, 0x75f115c1, 0xa6aeeea5, 0x2c3fd90c)"
  by (simp add: md5_round_def leftrotate_def md5_K_def md5_s_def Let_def)

lemma md5_plain_rounds_1_48:
  "fold (md5_round
     [0x52454c4c, 0x32323032, 0x80, 0x0, 0x0, 0x0, 0x0, 0x0,
      0x0, 0x0, 0x0, 0x0, 0x0, 0x0, 0x240, 0x0])
     [48, 49, 50, 51, 52, 53, 54, 55, 56, 57, 58, 59, 60, 61, 62, 63]
     (0x442fb7c6, 0x75f115c1, 0xa6aeeea5, 0x2c3fd90c) =
     (0xd82dba7f, 0xd71090fe, 0xd962ceaf, 0xeba9ee7a)"
  by (simp add: md5_round_def leftrotate_def md5_K_def md5_s_def Let_def)

lemma md5_plain_block_1:
  "md5_block (0xe1c27003, 0x924f7ec5, 0xad82ee1b, 0x514d32d4)
     [0x4c, 0x4c, 0x45, 0x52, 0x32, 0x30, 0x32, 0x32, 0x80, 0x0, 0x0, 0x0, 0x0, 0x0, 0x0, 0x0,
      0x0, 0x0, 0x0, 0x0, 0x0, 0x0, 0x0, 0x0, 0x0, 0x0, 0x0, 0x0, 0x0, 0x0, 0x0, 0x0,
      0x0, 0x0, 0x0, 0x0, 0x0, 0x0, 0x0, 0x0, 0x0, 0x0, 0x0, 0x0, 0x0, 0x0, 0x0, 0x0,
      0x0, 0x0, 0x0, 0x0, 0x0, 0x0, 0x0, 0x0, 0x40, 0x2, 0x0, 0x0, 0x0, 0x0, 0x0, 0x0] =
     (0xb9f02a82, 0x69600fc3, 0x86e5bcca, 0x3cf7214e)"
  unfolding md5_block_def md5_plain_words_1 upt_0_64
  by (simp only: prod.case fold_append o_apply md5_plain_rounds_1_0 md5_plain_rounds_1_16 md5_plain_rounds_1_32 md5_plain_rounds_1_48) simp

lemma md5_plain_digest:
  "md5_digest (encode ''https://gws.gplates.org/reconstruct/coastlines/?time=50&model=MULLER2022'') =
     [0x82, 0x2a, 0xf0, 0xb9, 0xc3, 0xf, 0x60, 0x69, 0xca, 0xbc, 0xe5, 0x86, 0x4e, 0x21, 0xf7, 0x3c]"
  unfolding md5_digest_def Let_def md5_plain_pad
    md5_blocks_two [OF md5_plain_length_0 md5_plain_length_1 md5_plain_block_0 md5_plain_block_1]
  by (simp add: word_bytes_def upt_0_4)

lemma md5_plain_hex:
  "md5_hex ''https://gws.gplates.org/reconstruct/coastlines/?time=50&model=MULLER2022'' = ''822af0b9c30f6069cabce5864e21f73c''"
  unfolding md5_hex_def md5_plain_digest
  by (simp add: hexdigest_def hex_digit_def)

lemma md5_float_pad:
  "md5_pad (encode ''https://gws.gplates.org/reconstruct/coastlines/?time=50.0&model=MULLER2022'') =
     [0x68, 0x74, 0x74, 0x70, 0x73, 0x3a, 0x2f, 0x2f, 0x67, 0x77, 0x73, 0x2e, 0x67, 0x70, 0x6c, 0x61,
      0x74, 0x65, 0x73, 0x2e, 0x6f, 0x72, 0x67, 0x2f, 0x72, 0x65, 0x63, 0x6f, 0x6e, 0x73, 0x74, 0x72,
      0x75, 0x63, 0x74, 0x2f, 0x63, 0x6f, 0x61, 0x73, 0x74, 0x6c, 0x69, 0x6e, 0x65, 0x73, 0x2f, 0x3f,
      0x74, 0x69, 0x6d, 0x65, 0x3d, 0x35, 0x30, 0x2e, 0x30, 0x26, 0x6d, 0x6f, 0x64, 0x65, 0x6c, 0x3d] @
     [0x4d, 0x55, 0x4c, 0x4c, 0x45, 0x52, 0x32, 0x30, 0x32, 0x32, 0x80, 0x0, 0x0, 0x0, 0x0, 0x0,
      0x0, 0x0, 0x0, 0x0, 0x0, 0x0, 0x0, 0x0, 0x0, 0x0, 0x0, 0x0, 0x0, 0x0, 0x0, 0x0,
      0x0, 0x0, 0x0, 0x0, 0x0, 0x0, 0x0, 0x0, 0x0, 0x0, 0x0, 0x0, 0x0, 0x0, 0x0, 0x0,
      0x0, 0x0, 0x0, 0x0, 0x0, 0x0, 0x0, 0x0, 0x50, 0x2, 0x0, 0x0, 0x0, 0x0, 0x0, 0x0]"
  by (simp add: encode_def utf8_def md5_pad_def upt_0_8 replicate_numeral)

lemma md5_float_length_0:
  "length
     [0x68, 0x74, 0x74, 0x70, 0x73, 0x3a, 0x2f, 0x2f, 0x67, 0x77, 0x73, 0x2e, 0x67, 0x70, 0x6c, 0x61,
      0x74, 0x65, 0x73, 0x2e, 0x6f, 0x72, 0x67, 0x2f, 0x72, 0x65, 0x63, 0x6f, 0x6e, 0x73, 0x74, 0x72,
      0x75, 0x63, 0x74, 0x2f, 0x63, 0x6f, 0x61, 0x73, 0x74, 0x6c, 0x69, 0x6e, 0x65, 0x73, 0x2f, 0x3f,
      0x74, 0x69, 0x6d, 0x65, 0x3d, 0x35, 0x30, 0x2e, 0x30, 0x26, 0x6d, 0x6f, 0x64, 0x65, 0x6c, 0x3d] = 64"
  by simp

lemma md5_float_words_0:
  "md5_words 16
     [0x68, 0x74, 0x74, 0x70, 0x73, 0x3a, 0x2f, 0x2f, 0x67, 0x77, 0x73, 0x2e, 0x67, 0x70, 0x6c, 0x61,
      0x74, 0x65, 0x73, 0x2e, 0x6f, 0x72, 0x67, 0x2f, 0x72, 0x65, 0x63, 0x6f, 0x6e, 0x73, 0x74, 0x72,
      0x75, 0x63, 0x74, 0x2f, 0x63, 0x6f, 0x61, 0x73, 0x74, 0x6c, 0x69, 0x6e, 0x65, 0x73, 0x2f, 0x3f,
      0x74, 0x69, 0x6d, 0x65, 0x3d, 0x35, 0x30, 0x2e, 0x30, 0x26, 0x6d, 0x6f, 0x64, 0x65, 0x6c, 0x3d] =
     [0x70747468, 0x2f2f3a73, 0x2e737767, 0x616c7067, 0x2e736574, 0x2f67726f, 0x6f636572, 0x7274736e,
      0x2f746375, 0x73616f63, 0x6e696c74, 0x3f2f7365, 0x656d6974, 0x2e30353d, 0x6f6d2630, 0x3d6c6564]"
  by (simp add: md5_words_16)

lemma md5_float_rounds_0_0:
  "fold (md5_round
     [0x70747468, 0x2f2f3a73, 0x2e737767, 0x616c7067, 0x2e736574, 0x2f67726f, 0x6f636572, 0x7274736e,
      0x2f746375, 0x73616f63, 0x6e696c74, 0x3f2f7365, 0x656d6974, 0x2e30353d, 0x6f6d2630, 0x3d6c6564])
     [0, 1, 2, 3, 4, 5, 6, 7, 8, 9, 10, 11, 12, 13, 14, 15]
     (0x67452301, 0xefcdab89, 0x98badcfe, 0x10325476) =
     (0xc7c57bbd, 0xc05f9a7d, 0xcef566cf, 0x41fff99a)"
  by (simp add: md5_round_def leftrotate_def md5_K_def md5_s_def Let_def)

lemma md5_float_rounds_0_16:
  "fold (md5_round
     [0x70747468, 0x2f2f3a73, 0x2e737767, 0x616c7067, 0x2e736574, 0x2f67726f, 0x6f636572, 0x7274736e,
      0x2f746375, 0x73616f63, 0x6e696c74, 0x3f2f7365, 0x656d6974, 0x2e30353d, 0x6f6d2630, 0x3d6c6564])
     [16, 17, 18, 19, 20, 21, 22, 23, 24, 25, 26, 27, 28, 29, 30, 31]
     (0xc7c57bbd, 0xc05f9a7d, 0xcef566cf, 0x41fff99a) =
     (0x520254e3, 0x9fbc4cdc, 0xeb3f4543, 0x7371bd58)"
  by (simp add: md5_round_def leftrotate_def md5_K_def md5_s_def Let_def)

lemma md5_float_rounds_0_32:
  "fold (md5_round
     [0x70747468, 0x2f2f3a73, 0x2e737767, 0x616c7067, 0x2e736574, 0x2f67726f, 0x6f636572, 0x7274736e,
      0x2f746375, 0x73616f63, 0x6e696c74, 0x3f2f7365, 0x656d6974, 0x2e30353d, 0x6f6d2630, 0x3d6c6564])
     [32, 33, 34, 35, 36, 37, 38, 39, 40, 41, 42, 43, 44, 45, 46, 47]
     (0x520254e3, 0x9fbc4cdc, 0xeb3f4543, 0x7371bd58) =
     (0xdad369ab, 0xd4f3f137, 0x480c71e4, 0xca422b9a)"
  by (simp add: md5_round_def leftrotate_def md5_K_def md5_s_def Let_def)

lemma md5_float_rounds_0_48:
  "fold (md5_round
     [0x70747468, 0x2f2f3a73, 0x2e737767, 0x616c7067, 0x2e736574, 0x2f67726f, 0x6f636572, 0x7274736e,
      0x2f746375, 0x73616f63, 0x6e696c74, 0x3f2f7365, 0x656d6974, 0x2e30353d, 0x6f6d2630, 0x3d6c6564])
     [48, 49, 50, 51, 52, 53, 54, 55, 56, 57, 58, 59, 60, 61, 62, 63]
     (0xdad369ab, 0xd4f3f137, 0x480c71e4, 0xca422b9a) =
     (0xb76f2455, 0x9fa4003e, 0x7d5c454c, 0x77e99688)"
  by (simp add: md5_round_def leftrotate_def md5_K_def md5_s_def Let_def)

lemma md5_float_block_0:
  "md5_block (0x67452301, 0xefcdab89, 0x98badcfe, 0x10325476)
     [0x68, 0x74, 0x74, 0x70, 0x73, 0x3a, 0x2f, 0x2f, 0x67, 0x77, 0x73, 0x2e, 0x67, 0x70, 0x6c, 0x61,
      0x74, 0x65, 0x73, 0x2e, 0x6f, 0x72, 0x67, 0x2f, 0x72, 0x65, 0x63, 0x6f, 0x6e, 0x73, 0x74, 0x72,
      0x75, 0x63, 0x74, 0x2f, 0x63, 0x6f, 0x61, 0x73, 0x74, 0x6c, 0x69, 0x6e, 0x65, 0x73, 0x2f, 0x3f,
      0x74, 0x69, 0x6d, 0x65, 0x3d, 0x35, 0x30, 0x2e, 0x30, 0x26, 0x6d, 0x6f, 0x64, 0x65, 0x6c, 0x3d] =
     (0x1eb44756, 0x8f71abc7, 0x1617224a, 0x881beafe)"
  unfolding md5_block_def md5_float_words_0 upt_0_64
  by (simp only: prod.case fold_append o_apply md5_float_rounds_0_0 md5_float_rounds_0_16 md5_float_rounds_0_32 md5_float_rounds_0_48) simp

lemma md5_float_length_1:
  "length
     [0x4d, 0x55, 0x4c, 0x4c, 0x45, 0x52, 0x32, 0x30, 0x32, 0x32, 0x80, 0x0, 0x0, 0x0, 0x0, 0x0,
      0x0, 0x0, 0x0, 0x0, 0x0, 0x0, 0x0, 0x0, 0x0, 0x0, 0x0, 0x0, 0x0, 0x0, 0x0, 0x0,
      0x0, 0x0, 0x0, 0x0, 0x0, 0x0, 0x0, 0x0, 0x0, 0x0, 0x0, 0x0, 0x0, 0x0, 0x0, 0x0,
      0x0, 0x0, 0x0, 0x0, 0x0, 0x0, 0x0, 0x0, 0x50, 0x2, 0x0, 0x0, 0x0, 0x0, 0x0, 0x0] = 64"
  by simp

lemma md5_float_words_1:
  "md5_words 16
     [0x4d, 0x55, 0x4c, 0x4c, 0x45, 0x52, 0x32, 0x30, 0x32, 0x32, 0x80, 0x0, 0x0, 0x0, 0x0, 0x0,
      0x0, 0x0, 0x0, 0x0, 0x0, 0x0, 0x0, 0x0, 0x0, 0x0, 0x0, 0x0, 0x0, 0x0, 0x0, 0x0,
      0x0, 0x0, 0x0, 0x0, 0x0, 0x0, 0x0, 0x0, 0x0, 0x0, 0x0, 0x0, 0x0, 0x0, 0x0, 0x0,
      0x0, 0x0, 0x0, 0x0, 0x0, 0x0, 0x0, 0x0, 0x50, 0x2, 0x0, 0x0, 0x0, 0x0, 0x0, 0x0] =
     [0x4c4c554d, 0x30325245, 0x803232, 0x0, 0x0, 0x0, 0x0, 0x0,
      0x0, 0x0, 0x0, 0x0, 0x0, 0x0, 0x250, 0x0]"
  by (simp add: md5_words_16)

lemma md5_float_rounds_1_0:
  "fold (md5_round
     [0x4c4c554d, 0x30325245, 0x803232, 0x0, 0x0, 0x0, 0x0, 0x0,
      0x0, 0x0, 0x0, 0x0, 0x0, 0x0, 0x250, 0x0])
     [0, 1, 2, 3, 4, 5, 6, 7, 8, 9, 10, 11, 12, 13, 14, 15]
     (0x1eb44756, 0x8f71abc7, 0x1617224a, 0x881beafe) =
     (0x55546de3, 0x2d3ff764, 0xcaba9a7a, 0x448f7be8)"
  by (simp add: md5_round_def leftrotate_def md5_K_def md5_s_def Let_def)

lemma md5_float_rounds_1_16:
  "fold (md5_round
     [0x4c4c554d, 0x30325245, 0x803232, 0x0, 0x0, 0x0, 0x0, 0x0,
      0x0, 0x0, 0x0, 0x0, 0x0, 0x0, 0x250, 0x0])
     [16, 17, 18, 19, 20, 21, 22, 23, 24, 25, 26, 27, 28, 29, 30, 31]
     (0x55546de3, 0x2d3ff764, 0xcaba9a7a, 0x448f7be8) =
     (0x90e49248, 0xeb30a745, 0xbc091012, 0x191912cb)"
  by (simp add: md5_round_def leftrotate_def md5_K_def md5_s_def Let_def)

lemma md5_float_rounds_1_32:
  "fold (md5_round
     [0x4c4c554d, 0x30325245, 0x803232, 0x0, 0x0, 0x0, 0x0, 0x0,
      0x0, 0x0, 0x0, 0x0, 0x0, 0x0, 0x250, 0x0])
     [32, 33, 34, 35, 36, 37, 38, 39, 40, 41, 42, 43, 44, 45, 46, 47]
     (0x90e49248, 0xeb30a745, 0xbc091012, 0x191912cb) =
     (0x3b0ac825, 0xb800a68e, 0xede19046, 0x734eccc8)"
  by (simp add: md5_round_def leftrotate_def md5_K_def md5_s_def Let_def)

lemma md5_float_rounds_1_48:
  "fold (md5_round
     [0x4c4c554d, 0x30325245, 0x803232, 0x0, 0x0, 0x0, 0x0, 0x0,
      0x0, 0x0, 0x0, 0x0, 0x0, 0x0, 0x250, 0x0])
     [48, 49, 50, 51, 52, 53, 54, 55, 56, 57, 58, 59, 60, 61, 62, 63]
     (0x3b0ac825, 0xb800a68e, 0xede19046, 0x734eccc8) =
     (0xf7cfb51f, 0xf36cf1ff, 0x19db6336, 0xe86ae45f)"
  by (simp add: md5_round_def leftrotate_def md5_K_def md5_s_def Let_def)

lemma md5_float_block_1:
  "md5_block (0x1eb44756, 0x8f71abc7, 0x1617224a, 0x881beafe)
     [0x4d, 0x55, 0x4c, 0x4c, 0x45, 0x52, 0x32, 0x30, 0x32, 0x32, 0x80, 0x0, 0x0, 0x0, 0x0, 0x0,
      0x0, 0x0, 0x0, 0x0, 0x0, 0x0, 0x0, 0x0, 0x0, 0x0, 0x0, 0x0, 0x0, 0x0, 0x0, 0x0,
      0x0, 0x0, 0x0, 0x0, 0x0, 0x0, 0x0, 0x0, 0x0, 0x0, 0x0, 0x0, 0x0, 0x0, 0x0, 0x0,
      0x0, 0x0, 0x0, 0x0, 0x0, 0x0, 0x0, 0x0, 0x50, 0x2, 0x0, 0x0, 0x0, 0x0, 0x0, 0x0] =
     (0x1683fc75, 0x82de9dc6, 0x2ff28580, 0x7086cf5d)"
  unfolding md5_block_def md5_float_words_1 upt_0_64
  by (simp only: prod.case fold_append o_apply md5_float_rounds_1_0 md5_float_rounds_1_16 md5_float_rounds_1_32 md5_float_rounds_1_48) simp

lemma md5_float_digest:
  "md5_digest (encode ''https://gws.gplates.org/reconstruct/coastlines/?time=50.0&model=MULLER2022'') =
     [0x75, 0xfc, 0x83, 0x16, 0xc6, 0x9d, 0xde, 0x82, 0x80, 0x85, 0xf2, 0x2f, 0x5d, 0xcf, 0x86, 0x70]"
  unfolding md5_digest_def Let_def md5_float_pad
    md5_blocks_two [OF md5_float_length_0 md5_float_length_1 md5_float_block_0 md5_float_block_1]
  by (simp add: word_bytes_def upt_0_4)

lemma md5_float_hex:
  "md5_hex ''https://gws.gplates.org/reconstruct/coastlines/?time=50.0&model=MULLER2022'' = ''75fc8316c69dde828085f22f5dcf8670''"
  unfolding md5_hex_def md5_float_digest
  by (simp add: hexdigest_def hex_digit_def)

lemma length_word_bytes: "length (word_bytes w) = 4"
  by (simp add: word_bytes_def)

lemma length_md5_digest: "length (md5_digest bs) = 16"
  by (simp add: md5_digest_def Let_def length_word_bytes split: prod.splits)

lemma length_hexdigest: "length (hexdigest bs) = 2 * length bs"
  by (induction bs) (simp_all add: hexdigest_def)

lemma length_md5_hex: "length (md5_hex url) = 32"
  by (simp add: md5_hex_def length_hexdigest length_md5_digest)

text \<open>
  The URL that the proxy looks up is the base URL followed by the path and the query of
  the request as they were received: for one path, different queries are different URLs.
\<close>

lemma gplates_url_query: "(gplates_url p q1 = gplates_url p q2) = (q1 = q2)"
  by (auto simp add: gplates_url_def split: if_splits)

text \<open>
  Claim C2, as stated, fails: two URLs of the same query that differ only in how the
  age is written are hashed as they are and name different cache files.
\<close>

theorem get_cache_path_counterexample:
  "get_cache_path ''https://gws.gplates.org/reconstruct/coastlines/?time=50&model=MULLER2022'' \<noteq>
   get_cache_path ''https://gws.gplates.org/reconstruct/coastlines/?time=50.0&model=MULLER2022''"
  by (simp add: get_cache_path_def md5_plain_hex md5_float_hex)

text \<open>
  Claim C2, amended. The cache key of a request is the MD5 digest, in 32 lower-case
  hexadecimal digits, of the UTF-8 bytes of the request URL exactly as it is written, and
  the cache file is \<open>gplates_cache/\<close>, the key, \<open>.json\<close>: the same URL always names the
  same file, and two URLs share a file exactly when their digests agree. Nothing is
  normalised before hashing. The URL of a request to the proxy is the base URL followed
  by the path and the query as received, so that two requests for the same path are the
  same URL only when their queries are the same text; the coastline queries of the model
  MULLER2022 with the age written \<open>50\<close> and \<open>50.0\<close> are stored in the two different
  files \<open>822af0b9c30f6069cabce5864e21f73c.json\<close> and
  \<open>75fc8316c69dde828085f22f5dcf8670.json\<close>. The digest is the MD5 of RFC 1321: the empty
  text and \<open>abc\<close> have the digests of its test suite.
\<close>

theorem get_cache_path_stable:
  "get_cache_path url = ''gplates_cache/'' @ hexdigest (md5_digest (encode url)) @ ''.json'' \<and>
   length (hexdigest (md5_digest (encode url))) = 32 \<and>
   (get_cache_path url1 = get_cache_path url2) = (md5_hex url1 = md5_hex url2) \<and>
   (gplates_url parsed_path query1 = gplates_url parsed_path query2) = (query1 = query2) \<and>
   gplates_url ''/reconstruct/coastlines/'' ''time=50&model=MULLER2022'' =
     ''https://gws.gplates.org/reconstruct/coastlines/?time=50&model=MULLER2022'' \<and>
   gplates_url ''/reconstruct/coastlines/'' ''time=50.0&model=MULLER2022'' =
     ''https://gws.gplates.org/reconstruct/coastlines/?time=50.0&model=MULLER2022'' \<and>
   get_cache_path ''https://gws.gplates.org/reconstruct/coastlines/?time=50&model=MULLER2022'' =
     ''gplates_cache/822af0b9c30f6069cabce5864e21f73c.json'' \<and>
   get_cache_path ''https://gws.gplates.org/reconstruct/coastlines/?time=50.0&model=MULLER2022'' =
     ''gplates_cache/75fc8316c69dde828085f22f5dcf8670.json'' \<and>
   md5_hex [] = ''d41d8cd98f00b204e9800998ecf8427e'' \<and>
   md5_hex ''abc'' = ''900150983cd24fb0d6963f7d28e17f72''"
proof (intro conjI)
  show "get_cache_path url = ''gplates_cache/'' @ hexdigest (md5_digest (encode url)) @ ''.json''"
    by (simp add: get_cache_path_def CACHE_DIR_def md5_hex_def)
  show "length (hexdigest (md5_digest (encode url))) = 32"
    using length_md5_hex [of url] by (simp add: md5_hex_def)
  show "(get_cache_path url1 = get_cache_path url2) = (md5_hex url1 = md5_hex url2)"
    by (simp add: get_cache_path_def)
  show "(gplates_url parsed_path query1 = gplates_url parsed_path query2) = (query1 = query2)"
    by (rule gplates_url_query)
  show "gplates_url ''/reconstruct/coastlines/'' ''time=50&model=MULLER2022'' =
     ''https://gws.gplates.org/reconstruct/coastlines/?time=50&model=MULLER2022''"
    by (simp add: gplates_url_def GPLATES_BASE_URL_def)
  show "gplates_url ''/reconstruct/coastlines/'' ''time=50.0&model=MULLER2022'' =
     ''https://gws.gplates.org/reconstruct/coastlines/?time=50.0&model=MULLER2022''"
    by (simp add: gplates_url_def GPLATES_BASE_URL_def)
  show "get_cache_path ''https://gws.gplates.org/reconstruct/coastlines/?time=50&model=MULLER2022'' =
     ''gplates_cache/822af0b9c30f6069cabce5864e21f73c.json''"
    by (simp add: get_cache_path_def CACHE_DIR_def md5_plain_hex)
  show "get_cache_path ''https://gws.gplates.org/reconstruct/coastlines/?time=50.0&model=MULLER2022'' =
     ''gplates_cache/75fc8316c69dde828085f22f5dcf8670.json''"
    by (simp add: get_cache_path_def CACHE_DIR_def md5_float_hex)
  show "md5_hex [] = ''d41d8cd98f00b204e9800998ecf8427e''"
    by (rule md5_empty_hex)
  show "md5_hex ''abc'' = ''900150983cd24fb0d6963f7d28e17f72''"
    by (rule md5_abc_hex)
qed

end
